theory Spec2Isabelle
  imports Complex_Main "HOL-Library.Sublist"
begin

section \<open>Python exceptions and the class table of the libraries used\<close>

text \<open>
  The three scripts (\<^verbatim>\<open>analise.py\<close>, \<^verbatim>\<open>extracao.py\<close>, \<^verbatim>\<open>visualizacao.py\<close>) decide what to
  do with an exception by its class (\<^verbatim>\<open>except C as e\<close>). An exception is modelled as its
  concrete class with its message; \<open>isinstance\<close> is the is_subclass table of Python 3 and of
  the libraries: \<^verbatim>\<open>IOError\<close> is an alias of \<^verbatim>\<open>OSError\<close>;
  \<^verbatim>\<open>requests.exceptions.RequestException\<close> derives from \<^verbatim>\<open>IOError\<close>;
  \<^verbatim>\<open>requests.exceptions.JSONDecodeError\<close> (raised by \<^verbatim>\<open>Response.json()\<close> since
  requests 2.27) derives from \<^verbatim>\<open>InvalidJSONError\<close>, a \<^verbatim>\<open>RequestException\<close>, and from
  \<^verbatim>\<open>json.JSONDecodeError\<close>, a \<^verbatim>\<open>ValueError\<close>; \<^verbatim>\<open>KeyError\<close> and \<^verbatim>\<open>IndexError\<close> are
  \<^verbatim>\<open>LookupError\<close>s; \<^verbatim>\<open>pandas.errors.EmptyDataError\<close> and \<^verbatim>\<open>ParserError\<close> are
  \<^verbatim>\<open>ValueError\<close>s. Every class here derives from \<^verbatim>\<open>Exception\<close>: asynchronous
  \<^verbatim>\<open>BaseException\<close>s (a keyboard interrupt) are not raised by any call of the scripts
  and are outside the model.
\<close>

datatype pyclass =
    Timeout | ConnectionError | HTTPError | Requests_JSONDecodeError
  | Json_JSONDecodeError | KeyError | ValueError | TypeError
  | IndexError | PermissionError | FileNotFoundError | IsADirectoryError | OSError
  | EmptyDataError | ParserError | RuntimeError

datatype handler_class =
    RequestException_cls | JSONDecodeError_cls | KeyError_cls | ValueError_cls
  | IOError_cls | Exception_cls

datatype exn = Exn (classe: pyclass) (mensagem: string)

fun is_subclass :: "pyclass \<Rightarrow> handler_class \<Rightarrow> bool" where
  "is_subclass c Exception_cls = True"
| "is_subclass c RequestException_cls =
     (c = Timeout \<or> c = ConnectionError \<or> c = HTTPError \<or> c = Requests_JSONDecodeError)"
| "is_subclass c JSONDecodeError_cls = (c = Requests_JSONDecodeError \<or> c = Json_JSONDecodeError)"
| "is_subclass c KeyError_cls = (c = KeyError)"
| "is_subclass c ValueError_cls =
     (c = ValueError \<or> c = Requests_JSONDecodeError \<or> c = Json_JSONDecodeError
      \<or> c = EmptyDataError \<or> c = ParserError)"
| "is_subclass c IOError_cls =
     (c = OSError \<or> c = PermissionError \<or> c = FileNotFoundError \<or> c = IsADirectoryError
      \<or> c = Timeout \<or> c = ConnectionError \<or> c = HTTPError \<or> c = Requests_JSONDecodeError)"

definition isinstance :: "exn \<Rightarrow> handler_class \<Rightarrow> bool" where
  "isinstance e h = is_subclass (classe e) h"

section \<open>The world: files, and the trace of observable effects\<close>

text \<open>
  A line printed by the scripts is its template with the values formatted into it.
\<close>

datatype msg =
    Aviso_dados_simulados
  | Erro_processar_dados exn
  | Erro_fazer_requisicao exn
  | Dados_salvos string string rat
  | Dados_salvos_com_sucesso string string rat
  | Erro_salvar_csv exn
  | Erro_ler_csv exn
  | Realizando_coletas int int
  | Coleta_concluida int int
  | Erro_na_coleta int exn
  | Grafico_salvo string
  | Erro_gerar_grafico exn
  | Erro_execucao exn
  | Total_registros nat
  | Iniciando_extracao
  | Extracao_concluida
  | Uso
  | Exemplo
  | Lendo_dados
  | Gerando_visualizacao
  | Visualizacao_concluida

datatype event =
    Print msg
  | Http_get
  | Sleep int
  | Savefig string

record world =
  files :: "string \<rightharpoonup> string"
  trace :: "event list"

definition emit :: "event \<Rightarrow> world \<Rightarrow> world" where
  "emit ev w = w\<lparr>trace := trace w @ [ev]\<rparr>"

definition py_print :: "msg \<Rightarrow> world \<Rightarrow> world" where
  "py_print m w = emit (Print m) w"

section \<open>The CSV writer\<close>

text \<open>
  \<^verbatim>\<open>csv.DictWriter(csvfile, fieldnames=campos)\<close> with the default dialect: delimiter
  \<^verbatim>\<open>,\<close>, quote character \<^verbatim>\<open>"\<close>, minimal quoting with doubled quotes, line
  terminator CR LF (the file is opened with \<^verbatim>\<open>newline=''\<close>, so nothing is translated).
  A field is quoted exactly when it holds the delimiter, the quote character, CR or LF.
\<close>

definition special :: "char \<Rightarrow> bool" where
  "special c = (c = CHR '','' \<or> c = CHR 0x22 \<or> c = CHR 0x0D \<or> c = CHR 0x0A)"

definition csv_field :: "string \<Rightarrow> string" where
  "csv_field s =
     (if list_ex special s
      then [CHR 0x22] @ concat (map (\<lambda>c. if c = CHR 0x22 then [c, c] else [c]) s) @ [CHR 0x22]
      else s)"

fun join_fields :: "string list \<Rightarrow> string" where
  "join_fields [] = []"
| "join_fields [f] = f"
| "join_fields (f # fs) = f @ '','' @ join_fields fs"

definition csv_row :: "string list \<Rightarrow> string" where
  "csv_row fs = join_fields (map csv_field fs) @ [CHR 0x0D, CHR 0x0A]"

definition campos :: "string list" where
  "campos = [''data'', ''hora'', ''taxa'']"

definition header_row :: string where
  "header_row = csv_row campos"

text \<open>
  \<open>writer.writerow({'data': data, 'hora': hora, 'taxa': taxa})\<close>: the values in the
  order of \<open>campos\<close>; the float is written as \<^verbatim>\<open>str(taxa)\<close>, a function of the Python
  library taken as the parameter \<open>str_float\<close>.
\<close>

definition data_row :: "(rat \<Rightarrow> string) \<Rightarrow> string \<Rightarrow> string \<Rightarrow> rat \<Rightarrow> string" where
  "data_row str_float d h t = csv_row [d, h, str_float t]"

section \<open>salvar_csv\<close>

text \<open>
  What the operating system does at one call is an input: the call goes through, or
  \<^verbatim>\<open>open(arquivo, 'a')\<close> raises, or the buffered text is flushed only in part when the
  \<^verbatim>\<open>with\<close> block closes the file (the first \<open>k\<close> bytes reach the file, then the
  write raises).
\<close>

datatype io_outcome = Io_ok | Open_fails exn | Write_fails exn nat

definition conteudo :: "world \<Rightarrow> string \<Rightarrow> string" where
  "conteudo w p = (case files w p of None \<Rightarrow> [] | Some c \<Rightarrow> c)"

definition append_bytes :: "string \<Rightarrow> string \<Rightarrow> world \<Rightarrow> world" where
  "append_bytes p bs w = w\<lparr>files := (files w)(p \<mapsto> conteudo w p @ bs)\<rparr>"

text \<open>
  The body of the \<^verbatim>\<open>try\<close>: open in append mode (which creates an absent file), write
  the header when the path did not exist at the check, write the row, close.
\<close>

definition escrever :: "io_outcome \<Rightarrow> string \<Rightarrow> string \<Rightarrow> world \<Rightarrow> (exn + unit) \<times> world" where
  "escrever io arquivo pendente w =
     (case io of
        Open_fails e \<Rightarrow> (Inl e, w)
      | Write_fails e k \<Rightarrow> (Inl e, append_bytes arquivo (take k pendente) w)
      | Io_ok \<Rightarrow> (Inr (), append_bytes arquivo pendente w))"

definition pendente_de :: "bool \<Rightarrow> string \<Rightarrow> string" where
  "pendente_de arquivo_existe linha = (if \<not> arquivo_existe then header_row else []) @ linha"

definition salvar_csv ::
  "(rat \<Rightarrow> string) \<Rightarrow> io_outcome \<Rightarrow> string \<Rightarrow> string \<Rightarrow> rat \<Rightarrow> string \<Rightarrow> world \<Rightarrow> (exn + unit) \<times> world" where
  "salvar_csv str_float io d h t arquivo w =
     (let arquivo_existe = (files w arquivo \<noteq> None) in
      case escrever io arquivo (pendente_de arquivo_existe (data_row str_float d h t)) w of
        (Inr u, w1) \<Rightarrow> (Inr (), py_print (Dados_salvos d h t) w1)
      | (Inl e, w1) \<Rightarrow>
          if isinstance e IOError_cls then (Inl e, py_print (Erro_salvar_csv e) w1)
          else (Inl e, w1))"

text \<open>The copy in \<^verbatim>\<open>extracao.py\<close>: the path is fixed and the message differs.\<close>

definition arquivo_padrao :: string where
  "arquivo_padrao = ''taxa-cdi.csv''"

definition salvar_csv_extracao ::
  "(rat \<Rightarrow> string) \<Rightarrow> io_outcome \<Rightarrow> string \<Rightarrow> string \<Rightarrow> rat \<Rightarrow> world \<Rightarrow> (exn + unit) \<times> world" where
  "salvar_csv_extracao str_float io d h t w =
     (let arquivo = arquivo_padrao;
          arquivo_existe = (files w arquivo \<noteq> None) in
      case escrever io arquivo (pendente_de arquivo_existe (data_row str_float d h t)) w of
        (Inr u, w1) \<Rightarrow> (Inr (), py_print (Dados_salvos_com_sucesso d h t) w1)
      | (Inl e, w1) \<Rightarrow>
          if isinstance e IOError_cls then (Inl e, py_print (Erro_salvar_csv e) w1)
          else (Inl e, w1))"

section \<open>The clock, the random source and the decoded JSON value\<close>

text \<open>
  \<^verbatim>\<open>datetime.now()\<close> is an input; \<^verbatim>\<open>strftime('%Y-%m-%d')\<close> and
  \<^verbatim>\<open>strftime('%H:%M:%S')\<close> print its fields in decimal, zero-padded to four and two
  digits.
\<close>

record datetime =
  ano :: nat
  mes :: nat
  dia :: nat
  horas :: nat
  minutos :: nat
  segundos :: nat

definition digito :: "nat \<Rightarrow> char" where
  "digito n = ''0123456789'' ! (n mod 10)"

definition dec2 :: "nat \<Rightarrow> string" where
  "dec2 n = [digito (n div 10), digito n]"

definition dec4 :: "nat \<Rightarrow> string" where
  "dec4 n = [digito (n div 1000), digito (n div 100), digito (n div 10), digito n]"

definition strftime_Ymd :: "datetime \<Rightarrow> string" where
  "strftime_Ymd ag = dec4 (ano ag) @ ''-'' @ dec2 (mes ag) @ ''-'' @ dec2 (dia ag)"

definition strftime_HMS :: "datetime \<Rightarrow> string" where
  "strftime_HMS ag = dec2 (horas ag) @ '':'' @ dec2 (minutos ag) @ '':'' @ dec2 (segundos ag)"

text \<open>
  Rates are exact rationals (Python's binary floats are idealised; NaN and the infinities
  are not represented). \<^verbatim>\<open>random.uniform(a, b)\<close> is \<^verbatim>\<open>a + (b - a) * random()\<close>
  with \<^verbatim>\<open>random()\<close>, the draw, an input; \<^verbatim>\<open>round(x, n)\<close> rounds half to even at
  \<open>n\<close> decimals.
\<close>

definition uniform :: "rat \<Rightarrow> rat \<Rightarrow> rat \<Rightarrow> rat" where
  "uniform a b u = a + (b - a) * u"

definition round_half_even :: "rat \<Rightarrow> int" where
  "round_half_even x =
     (let f = \<lfloor>x\<rfloor>; d = x - of_int f in
      if d < 1 / 2 then f
      else if 1 / 2 < d then f + 1
      else if even f then f else f + 1)"

definition py_round :: "rat \<Rightarrow> nat \<Rightarrow> rat" where
  "py_round x n = of_int (round_half_even (x * 10 ^ n)) / 10 ^ n"

text \<open>
  The value \<^verbatim>\<open>response.json()\<close> returns: \<^verbatim>\<open>None\<close>, a bool, a number, a string, a
  list or a dict (its items, looked up by key).
\<close>

datatype json =
    PNone | PBool bool | PNum rat | PStr string
  | PList "json list" | PDict "(string \<times> json) list"

fun truthy :: "json \<Rightarrow> bool" where
  "truthy PNone = False"
| "truthy (PBool b) = b"
| "truthy (PNum x) = (x \<noteq> 0)"
| "truthy (PStr s) = (s \<noteq> [])"
| "truthy (PList xs) = (xs \<noteq> [])"
| "truthy (PDict kvs) = (kvs \<noteq> [])"

fun py_len :: "json \<Rightarrow> exn + nat" where
  "py_len (PStr s) = Inr (length s)"
| "py_len (PList xs) = Inr (length xs)"
| "py_len (PDict kvs) = Inr (length kvs)"
| "py_len v = Inl (Exn TypeError ''object has no len()'')"

text \<open>\<^verbatim>\<open>dados and len(dados) > 0\<close>, as the condition of the \<^verbatim>\<open>if\<close>.\<close>

definition tem_dados :: "json \<Rightarrow> exn + bool" where
  "tem_dados dados =
     (if \<not> truthy dados then Inr False
      else case py_len dados of Inl e \<Rightarrow> Inl e | Inr n \<Rightarrow> Inr (0 < n))"

text \<open>\<^verbatim>\<open>dados[-1]\<close>.\<close>

fun ultimo :: "json \<Rightarrow> exn + json" where
  "ultimo (PList xs) =
     (if xs = [] then Inl (Exn IndexError ''list index out of range'') else Inr (last xs))"
| "ultimo (PStr s) =
     (if s = [] then Inl (Exn IndexError ''string index out of range'') else Inr (PStr [last s]))"
| "ultimo (PDict kvs) = Inl (Exn KeyError ''-1'')"
| "ultimo v = Inl (Exn TypeError ''object is not subscriptable'')"

text \<open>\<^verbatim>\<open>ultimo_registro['valor']\<close>.\<close>

fun item_valor :: "json \<Rightarrow> exn + json" where
  "item_valor (PDict kvs) =
     (case map_of kvs ''valor'' of
        None \<Rightarrow> Inl (Exn KeyError ''valor'')
      | Some v \<Rightarrow> Inr v)"
| "item_valor (PList xs) = Inl (Exn TypeError ''list indices must be integers or slices, not str'')"
| "item_valor (PStr s) = Inl (Exn TypeError ''string indices must be integers'')"
| "item_valor v = Inl (Exn TypeError ''object is not subscriptable'')"

text \<open>
  \<^verbatim>\<open>float(v)\<close>: a number is itself, a bool is 1 or 0, a string is parsed by the
  library's grammar (the parameter \<open>float_str\<close>, \<open>None\<close> where Python raises
  \<^verbatim>\<open>ValueError\<close>); anything else is a \<^verbatim>\<open>TypeError\<close>.
\<close>

fun py_float :: "(string \<Rightarrow> rat option) \<Rightarrow> json \<Rightarrow> exn + rat" where
  "py_float float_str (PNum x) = Inr x"
| "py_float float_str (PBool b) = Inr (if b then 1 else 0)"
| "py_float float_str (PStr s) =
     (case float_str s of
        None \<Rightarrow> Inl (Exn ValueError (''could not convert string to float: '' @ s))
      | Some x \<Rightarrow> Inr x)"
| "py_float float_str v = Inl (Exn TypeError ''float() argument must be a string or a real number'')"

section \<open>The remote source and the sampler\<close>

text \<open>
  What the HTTP layer does at one call is an input: \<^verbatim>\<open>requests.get\<close> raises, or it
  returns a response with a status code and a body that \<^verbatim>\<open>response.json()\<close> either
  decodes or rejects with the exception given. \<^verbatim>\<open>raise_for_status()\<close> raises
  \<^verbatim>\<open>HTTPError\<close> for the codes 400 to 599.
\<close>

datatype body = Undecodable exn | Decoded json

datatype http_outcome = Get_raises exn | Response nat body

record ambiente =
  http :: http_outcome
  agora :: datetime
  sorteio :: rat
  io :: io_outcome

type_synonym observacao = "string \<times> string \<times> rat"

definition raise_for_status :: "nat \<Rightarrow> exn + unit" where
  "raise_for_status status =
     (if 400 \<le> status \<and> status < 600 then Inl (Exn HTTPError ''Error for url'') else Inr ())"

text \<open>
  The body of the \<^verbatim>\<open>try\<close> of \<^verbatim>\<open>extrair_taxa_cdi\<close>, the same text in
  \<^verbatim>\<open>analise.py\<close> and \<^verbatim>\<open>extracao.py\<close>.
\<close>

definition requisicao :: "(string \<Rightarrow> rat option) \<Rightarrow> ambiente \<Rightarrow> exn + observacao" where
  "requisicao float_str env =
     (case http env of
        Get_raises e \<Rightarrow> Inl e
      | Response status b \<Rightarrow>
          (case raise_for_status status of
             Inl e \<Rightarrow> Inl e
           | Inr u \<Rightarrow>
               (case b of
                  Undecodable e \<Rightarrow> Inl e
                | Decoded dados \<Rightarrow>
                    (case tem_dados dados of
                       Inl e \<Rightarrow> Inl e
                     | Inr False \<Rightarrow> Inl (Exn ValueError ''Nenhum dado CDI encontrado na API'')
                     | Inr True \<Rightarrow>
                         (case ultimo dados of
                            Inl e \<Rightarrow> Inl e
                          | Inr ultimo_registro \<Rightarrow>
                              (case item_valor ultimo_registro of
                                 Inl e \<Rightarrow> Inl e
                               | Inr v \<Rightarrow>
                                   (case py_float float_str v of
                                      Inl e \<Rightarrow> Inl e
                                    | Inr taxa \<Rightarrow>
                                        Inr (strftime_Ymd (agora env),
                                             strftime_HMS (agora env), taxa))))))))"

definition taxa_simulada :: "rat \<Rightarrow> rat" where
  "taxa_simulada u = py_round (uniform (25 / 2) (69 / 5) u) 4"

text \<open>\<^verbatim>\<open>analise.py\<close>: the first matching \<^verbatim>\<open>except\<close> clause handles the exception.\<close>

definition extrair_taxa_cdi ::
  "(string \<Rightarrow> rat option) \<Rightarrow> ambiente \<Rightarrow> world \<Rightarrow> (exn + observacao) \<times> world" where
  "extrair_taxa_cdi float_str env w =
     (let w1 = emit Http_get w in
      case requisicao float_str env of
        Inr obs \<Rightarrow> (Inr obs, w1)
      | Inl e \<Rightarrow>
          if isinstance e RequestException_cls then
            (Inr (strftime_Ymd (agora env), strftime_HMS (agora env),
                  taxa_simulada (sorteio env)),
             py_print Aviso_dados_simulados w1)
          else if isinstance e JSONDecodeError_cls \<or> isinstance e KeyError_cls
                  \<or> isinstance e ValueError_cls then
            (Inl e, py_print (Erro_processar_dados e) w1)
          else (Inl e, w1))"

text \<open>\<^verbatim>\<open>extracao.py\<close>: both clauses print and re-raise.\<close>

definition extrair_taxa_cdi_extracao ::
  "(string \<Rightarrow> rat option) \<Rightarrow> ambiente \<Rightarrow> world \<Rightarrow> (exn + observacao) \<times> world" where
  "extrair_taxa_cdi_extracao float_str env w =
     (let w1 = emit Http_get w in
      case requisicao float_str env of
        Inr obs \<Rightarrow> (Inr obs, w1)
      | Inl e \<Rightarrow>
          if isinstance e RequestException_cls then
            (Inl e, py_print (Erro_fazer_requisicao e) w1)
          else if isinstance e JSONDecodeError_cls \<or> isinstance e KeyError_cls
                  \<or> isinstance e ValueError_cls then
            (Inl e, py_print (Erro_processar_dados e) w1)
          else (Inl e, w1))"

section \<open>The batch collector of analise.py\<close>

text \<open>\<^verbatim>\<open>time.sleep(secs)\<close> raises \<^verbatim>\<open>ValueError\<close> for a negative length.\<close>

definition sleep :: "int \<Rightarrow> world \<Rightarrow> (exn + unit) \<times> world" where
  "sleep secs w =
     (if secs < 0 then (Inl (Exn ValueError ''sleep length must be non-negative''), w)
      else (Inr (), emit (Sleep secs) w))"

text \<open>
  The body of the \<^verbatim>\<open>try\<close> inside the loop, for the index \<open>i\<close>: sample, save to the
  default path, report, and sleep unless this is the last index.
\<close>

definition tentativa ::
  "(string \<Rightarrow> rat option) \<Rightarrow> (rat \<Rightarrow> string) \<Rightarrow> int \<Rightarrow> int \<Rightarrow> int \<Rightarrow> ambiente \<Rightarrow> world
     \<Rightarrow> (exn + unit) \<times> world" where
  "tentativa float_str str_float i n_coletas intervalo env w =
     (case extrair_taxa_cdi float_str env w of
        (Inl e, w1) \<Rightarrow> (Inl e, w1)
      | (Inr (d, h, t), w1) \<Rightarrow>
          (case salvar_csv str_float (io env) d h t arquivo_padrao w1 of
             (Inl e, w2) \<Rightarrow> (Inl e, w2)
           | (Inr u, w2) \<Rightarrow>
               (let w3 = py_print (Coleta_concluida (i + 1) n_coletas) w2 in
                if i < n_coletas - 1 then sleep intervalo w3 else (Inr (), w3))))"

text \<open>One iteration: the \<^verbatim>\<open>try\<close> with its \<^verbatim>\<open>except Exception\<close> clause.\<close>

definition iteracao ::
  "(string \<Rightarrow> rat option) \<Rightarrow> (rat \<Rightarrow> string) \<Rightarrow> int \<Rightarrow> int \<Rightarrow> int \<Rightarrow> ambiente \<Rightarrow> world
     \<Rightarrow> (exn + unit) \<times> world" where
  "iteracao float_str str_float i n_coletas intervalo env w =
     (case tentativa float_str str_float i n_coletas intervalo env w of
        (Inr u, w1) \<Rightarrow> (Inr (), w1)
      | (Inl e, w1) \<Rightarrow>
          if isinstance e Exception_cls then (Inr (), py_print (Erro_na_coleta (i + 1) e) w1)
          else (Inl e, w1))"

definition py_range :: "int \<Rightarrow> int list" where
  "py_range n = map int [0..<nat n]"

text \<open>
  \<^verbatim>\<open>for i in range(n_coletas)\<close>; \<open>envs k\<close> is what the network, the clock, the
  random source and the file system do during the iteration of index \<open>k\<close>.
\<close>

fun laco ::
  "(string \<Rightarrow> rat option) \<Rightarrow> (rat \<Rightarrow> string) \<Rightarrow> (nat \<Rightarrow> ambiente) \<Rightarrow> int \<Rightarrow> int \<Rightarrow> int list
     \<Rightarrow> world \<Rightarrow> (exn + unit) \<times> world" where
  "laco float_str str_float envs n_coletas intervalo [] w = (Inr (), w)"
| "laco float_str str_float envs n_coletas intervalo (i # is) w =
     (case iteracao float_str str_float i n_coletas intervalo (envs (nat i)) w of
        (Inl e, w1) \<Rightarrow> (Inl e, w1)
      | (Inr u, w1) \<Rightarrow> laco float_str str_float envs n_coletas intervalo is w1)"

definition coletar_multiplas_vezes ::
  "(string \<Rightarrow> rat option) \<Rightarrow> (rat \<Rightarrow> string) \<Rightarrow> (nat \<Rightarrow> ambiente) \<Rightarrow> int \<Rightarrow> int \<Rightarrow> world
     \<Rightarrow> (exn + unit) \<times> world" where
  "coletar_multiplas_vezes float_str str_float envs n_coletas intervalo w =
     laco float_str str_float envs n_coletas intervalo (py_range n_coletas)
       (py_print (Realizando_coletas n_coletas intervalo) w)"

section \<open>The single-shot entry point of extracao.py\<close>

definition main_extracao ::
  "(string \<Rightarrow> rat option) \<Rightarrow> (rat \<Rightarrow> string) \<Rightarrow> ambiente \<Rightarrow> world
     \<Rightarrow> (exn + int) \<times> world" where
  "main_extracao float_str str_float env w =
     (let w0 = py_print Iniciando_extracao w;
          tentar =
            (case extrair_taxa_cdi_extracao float_str env w0 of
               (Inl e, w1) \<Rightarrow> (Inl e, w1)
             | (Inr (d, h, t), w1) \<Rightarrow>
                 (case salvar_csv_extracao str_float (io env) d h t w1 of
                    (Inl e, w2) \<Rightarrow> (Inl e, w2)
                  | (Inr u, w2) \<Rightarrow> (Inr (), py_print Extracao_concluida w2)))
      in case tentar of
           (Inl e, w3) \<Rightarrow>
             if isinstance e Exception_cls then (Inr 1, py_print (Erro_execucao e) w3)
             else (Inl e, w3)
         | (Inr u, w3) \<Rightarrow> (Inr 0, w3))"

section \<open>The reader and the chart of visualizacao.py\<close>

text \<open>
  \<^verbatim>\<open>pd.read_csv\<close> is the parameter \<open>read_csv\<close>, from the bytes of the file to the
  frame or to the exception pandas raises; of the frame only the column names and the
  rows matter here.
\<close>

record dataframe =
  colunas :: "string list"
  linhas :: "string list list"

definition msg_nao_encontrado :: "string \<Rightarrow> string" where
  "msg_nao_encontrado arquivo =
     ''Arquivo '' @ arquivo @ '' n'' @ [CHR 0xC3, CHR 0xA3] @ ''o encontrado''"

definition msg_colunas :: string where
  "msg_colunas =
     ''Arquivo CSV deve conter as colunas '' @ [CHR 0x27] @ ''hora'' @ [CHR 0x27]
       @ '' e '' @ [CHR 0x27] @ ''taxa'' @ [CHR 0x27]"

definition ler_dados_csv ::
  "(string \<Rightarrow> exn + dataframe) \<Rightarrow> string \<Rightarrow> world \<Rightarrow> (exn + dataframe) \<times> world" where
  "ler_dados_csv read_csv arquivo w =
     (let tentar =
            (case files w arquivo of
               None \<Rightarrow> Inl (Exn FileNotFoundError (msg_nao_encontrado arquivo))
             | Some c \<Rightarrow>
                 (case read_csv c of
                    Inl e \<Rightarrow> Inl e
                  | Inr df \<Rightarrow>
                      if ''hora'' \<notin> set (colunas df) \<or> ''taxa'' \<notin> set (colunas df)
                      then Inl (Exn ValueError msg_colunas)
                      else Inr df))
      in case tentar of
           Inl e \<Rightarrow>
             if isinstance e Exception_cls then (Inl e, py_print (Erro_ler_csv e) w)
             else (Inl e, w)
         | Inr df \<Rightarrow> (Inr df, w))"

text \<open>
  \<^verbatim>\<open>gerar_grafico\<close>: \<^verbatim>\<open>df['hora']\<close> and \<^verbatim>\<open>df['taxa']\<close> raise \<^verbatim>\<open>KeyError\<close> for a
  missing column; \<open>plot_falha\<close> is the exception, if any, that the plotting calls up to
  and including \<^verbatim>\<open>savefig\<close> raise, in which case no image is written.
\<close>

definition gerar_grafico ::
  "exn option \<Rightarrow> dataframe \<Rightarrow> string \<Rightarrow> world \<Rightarrow> (exn + unit) \<times> world" where
  "gerar_grafico plot_falha df nome_grafico w =
     (let tentar =
            (if ''hora'' \<notin> set (colunas df) then (Inl (Exn KeyError ''hora''), w)
             else if ''taxa'' \<notin> set (colunas df) then (Inl (Exn KeyError ''taxa''), w)
             else case plot_falha of
                    Some e \<Rightarrow> (Inl e, w)
                  | None \<Rightarrow>
                      (let nome_arquivo = nome_grafico @ ''.png'' in
                       (Inr (), py_print (Grafico_salvo nome_arquivo)
                                  (emit (Savefig nome_arquivo) w))))
      in case tentar of
           (Inl e, w1) \<Rightarrow>
             if isinstance e Exception_cls then (Inl e, py_print (Erro_gerar_grafico e) w1)
             else (Inl e, w1)
         | (Inr u, w1) \<Rightarrow> (Inr (), w1))"

definition main_visualizacao ::
  "(string \<Rightarrow> exn + dataframe) \<Rightarrow> exn option \<Rightarrow> string list \<Rightarrow> world
     \<Rightarrow> (exn + int) \<times> world" where
  "main_visualizacao read_csv plot_falha argv w =
     (if length argv < 2 then (Inr 1, py_print Exemplo (py_print Uso w))
      else
        let nome_grafico = argv ! 1;
            w0 = py_print Lendo_dados w;
            tentar =
              (case ler_dados_csv read_csv arquivo_padrao w0 of
                 (Inl e, w1) \<Rightarrow> (Inl e, w1)
               | (Inr df, w1) \<Rightarrow>
                   (let w2 = py_print Gerando_visualizacao
                               (py_print (Total_registros (length (linhas df))) w1) in
                    case gerar_grafico plot_falha df nome_grafico w2 of
                      (Inl e, w3) \<Rightarrow> (Inl e, w3)
                    | (Inr u, w3) \<Rightarrow> (Inr (), py_print Visualizacao_concluida w3)))
        in case tentar of
             (Inl e, w4) \<Rightarrow>
               if isinstance e Exception_cls then (Inr 1, py_print (Erro_execucao e) w4)
               else (Inl e, w4)
           | (Inr u, w4) \<Rightarrow> (Inr 0, w4))"

text \<open>The image files a run has written: the \<^verbatim>\<open>savefig\<close> events of its trace.\<close>

definition imagens :: "world \<Rightarrow> string list" where
  "imagens w = concat (map (\<lambda>ev. case ev of Savefig nome \<Rightarrow> [nome] | _ \<Rightarrow> []) (trace w))"

text \<open>The HTTP requests a run has made, and the pauses it has taken.\<close>

definition requisicoes :: "world \<Rightarrow> nat" where
  "requisicoes w = length (filter (\<lambda>ev. ev = Http_get) (trace w))"

definition pausas :: "world \<Rightarrow> int list" where
  "pausas w = concat (map (\<lambda>ev. case ev of Sleep s \<Rightarrow> [s] | _ \<Rightarrow> []) (trace w))"

section \<open>Sequences of calls of salvar_csv\<close>

text \<open>
  \<open>N\<close> calls of \<^verbatim>\<open>salvar_csv\<close> one after the other on the same path, each with its
  arguments and with what the file system does at that call; the results are collected
  in order.
\<close>

fun chamadas_salvar_csv ::
  "(rat \<Rightarrow> string) \<Rightarrow> string \<Rightarrow> (io_outcome \<times> string \<times> string \<times> rat) list \<Rightarrow> world
     \<Rightarrow> (exn + unit) list \<times> world" where
  "chamadas_salvar_csv str_float arquivo [] w = ([], w)"
| "chamadas_salvar_csv str_float arquivo ((falha, d, h, t) # cs) w =
     (case salvar_csv str_float falha d h t arquivo w of
        (r, w1) \<Rightarrow> (case chamadas_salvar_csv str_float arquivo cs w1 of
                      (rs, w2) \<Rightarrow> (r # rs, w2)))"

fun chamadas_salvar_csv_extracao ::
  "(rat \<Rightarrow> string) \<Rightarrow> (io_outcome \<times> string \<times> string \<times> rat) list \<Rightarrow> world
     \<Rightarrow> (exn + unit) list \<times> world" where
  "chamadas_salvar_csv_extracao str_float [] w = ([], w)"
| "chamadas_salvar_csv_extracao str_float ((falha, d, h, t) # cs) w =
     (case salvar_csv_extracao str_float falha d h t w of
        (r, w1) \<Rightarrow> (case chamadas_salvar_csv_extracao str_float cs w1 of
                      (rs, w2) \<Rightarrow> (r # rs, w2)))"

definition linhas_de :: "(rat \<Rightarrow> string) \<Rightarrow> (io_outcome \<times> string \<times> string \<times> rat) list \<Rightarrow> string" where
  "linhas_de str_float cs = concat (map (\<lambda>(falha, d, h, t). data_row str_float d h t) cs)"

section \<open>Vocabulary of the claims\<close>

text \<open>
  A network-layer failure: \<^verbatim>\<open>requests.get\<close> raises a timeout, a connection error or an
  HTTP error, or the response carries a status that \<^verbatim>\<open>raise_for_status\<close> rejects.
\<close>

definition falha_de_rede :: "ambiente \<Rightarrow> bool" where
  "falha_de_rede env =
     (case http env of
        Get_raises e \<Rightarrow> classe e = Timeout \<or> classe e = ConnectionError \<or> classe e = HTTPError
      | Response st b \<Rightarrow> 400 \<le> st \<and> st < 600)"

text \<open>A frame that lacks the column \<^verbatim>\<open>hora\<close> or the column \<^verbatim>\<open>taxa\<close>.\<close>

definition falta_coluna :: "dataframe \<Rightarrow> bool" where
  "falta_coluna df = (''hora'' \<notin> set (colunas df) \<or> ''taxa'' \<notin> set (colunas df))"

text \<open>The two exceptions \<^verbatim>\<open>ler_dados_csv\<close> raises itself.\<close>

definition colunas_erradas :: exn where
  "colunas_erradas = Exn ValueError msg_colunas"

definition nao_encontrado :: "string \<Rightarrow> exn" where
  "nao_encontrado arquivo = Exn FileNotFoundError (msg_nao_encontrado arquivo)"

section \<open>Concrete inputs\<close>

definition mundo_vazio :: world where
  "mundo_vazio = \<lparr>files = Map.empty, trace = []\<rparr>"

definition mundo_arquivo_vazio :: world where
  "mundo_arquivo_vazio = \<lparr>files = [''taxa-cdi.csv'' \<mapsto> []], trace = []\<rparr>"

definition registro_anterior :: string where
  "registro_anterior =
     ''data,hora,taxa'' @ [CHR 0x0D, CHR 0x0A] @ ''2023-12-29,09:30:00,13.15'' @ [CHR 0x0D, CHR 0x0A]"

definition mundo_um_registro :: world where
  "mundo_um_registro = \<lparr>files = [''taxa-cdi.csv'' \<mapsto> registro_anterior], trace = []\<rparr>"

definition permissao_negada :: exn where
  "permissao_negada = Exn PermissionError ''Permission denied''"

definition disco_cheio :: exn where
  "disco_cheio = Exn OSError ''No space left on device''"

definition cenario_A :: "(io_outcome \<times> string \<times> string \<times> rat) list" where
  "cenario_A = [(Io_ok, ''2024-01-01'', ''10:00:00'', 53 / 4)]"

definition relogio :: datetime where
  "relogio = \<lparr>ano = 2024, mes = 1, dia = 1, horas = 10, minutos = 0, segundos = 0\<rparr>"

definition float_exemplo :: "string \<Rightarrow> rat option" where
  "float_exemplo s = (if s = ''13.25'' then Some (53 / 4) else None)"

definition env_timeout :: ambiente where
  "env_timeout = \<lparr>http = Get_raises (Exn Timeout ''Read timed out''), agora = relogio,
                  sorteio = 1 / 2, io = Io_ok\<rparr>"

definition corpo_html :: exn where
  "corpo_html = Exn Requests_JSONDecodeError ''Expecting value: line 1 column 1 (char 0)''"

definition env_html :: ambiente where
  "env_html = \<lparr>http = Response 200 (Undecodable corpo_html), agora = relogio,
               sorteio = 1 / 2, io = Io_ok\<rparr>"

definition env_lista_vazia :: ambiente where
  "env_lista_vazia = \<lparr>http = Response 200 (Decoded (PList [])), agora = relogio,
               sorteio = 1 / 2, io = Io_ok\<rparr>"

definition env_ok :: ambiente where
  "env_ok = \<lparr>http = Response 200 (Decoded (PList [PDict [(''data'', PStr ''01/01/2024''),
                                                         (''valor'', PStr ''13.25'')]])),
             agora = relogio, sorteio = 1 / 2, io = Io_ok\<rparr>"

definition sem_dados :: exn where
  "sem_dados = Exn ValueError ''Nenhum dado CDI encontrado na API''"

definition envs_primeira_falha :: "nat \<Rightarrow> ambiente" where
  "envs_primeira_falha k = (if k = 0 then env_lista_vazia else env_ok)"

definition envs_segunda_falha :: "nat \<Rightarrow> ambiente" where
  "envs_segunda_falha k = (if k = 1 then env_lista_vazia else env_ok)"

definition mundo_sem_taxa :: world where
  "mundo_sem_taxa = \<lparr>files = [''taxa-cdi.csv'' \<mapsto> ''data,hora'' @ [CHR 0x0D, CHR 0x0A]],
                      trace = []\<rparr>"

definition df_sem_taxa :: dataframe where
  "df_sem_taxa = \<lparr>colunas = [''data'', ''hora''], linhas = []\<rparr>"

definition read_csv_exemplo :: "string \<Rightarrow> exn + dataframe" where
  "read_csv_exemplo c =
     (if c = [] then Inl (Exn EmptyDataError ''No columns to parse from file'')
      else Inr df_sem_taxa)"

section \<open>Basic facts about the effects\<close>

lemma files_py_print [simp]: "files (py_print m w) = files w"
  by (simp add: py_print_def emit_def)

lemma trace_py_print [simp]: "trace (py_print m w) = trace w @ [Print m]"
  by (simp add: py_print_def emit_def)

lemma files_emit [simp]: "files (emit ev w) = files w"
  by (simp add: emit_def)

lemma trace_emit [simp]: "trace (emit ev w) = trace w @ [ev]"
  by (simp add: emit_def)

lemma files_append_bytes [simp]:
  "files (append_bytes p bs w) = (files w)(p \<mapsto> conteudo w p @ bs)"
  by (simp add: append_bytes_def)

lemma trace_append_bytes [simp]: "trace (append_bytes p bs w) = trace w"
  by (simp add: append_bytes_def)

lemma salvar_csv_Io_ok:
  "salvar_csv sf Io_ok d h t a w =
     (Inr (), py_print (Dados_salvos d h t)
        (append_bytes a (pendente_de (files w a \<noteq> None) (data_row sf d h t)) w))"
  by (simp add: salvar_csv_def escrever_def)

lemma salvar_csv_extracao_Io_ok:
  "salvar_csv_extracao sf Io_ok d h t w =
     (Inr (), py_print (Dados_salvos_com_sucesso d h t)
        (append_bytes arquivo_padrao
           (pendente_de (files w arquivo_padrao \<noteq> None) (data_row sf d h t)) w))"
  by (simp add: salvar_csv_extracao_def escrever_def)

lemma salvar_csv_Open_fails:
  "salvar_csv sf (Open_fails e) d h t a w =
     (Inl e, if isinstance e IOError_cls then py_print (Erro_salvar_csv e) w else w)"
  by (simp add: salvar_csv_def escrever_def)

lemma salvar_csv_Write_fails:
  "salvar_csv sf (Write_fails e k) d h t a w =
     (Inl e,
      let w1 = append_bytes a (take k (pendente_de (files w a \<noteq> None) (data_row sf d h t))) w
      in if isinstance e IOError_cls then py_print (Erro_salvar_csv e) w1 else w1)"
  by (simp add: salvar_csv_def escrever_def Let_def)

lemma salvar_csv_extracao_Open_fails:
  "salvar_csv_extracao sf (Open_fails e) d h t w =
     (Inl e, if isinstance e IOError_cls then py_print (Erro_salvar_csv e) w else w)"
  by (simp add: salvar_csv_extracao_def escrever_def)

lemma salvar_csv_extracao_Write_fails:
  "salvar_csv_extracao sf (Write_fails e k) d h t w =
     (Inl e,
      let w1 = append_bytes arquivo_padrao
                 (take k (pendente_de (files w arquivo_padrao \<noteq> None) (data_row sf d h t))) w
      in if isinstance e IOError_cls then py_print (Erro_salvar_csv e) w1 else w1)"
  by (simp add: salvar_csv_extracao_def escrever_def Let_def)

lemma data_row_exemplo:
  "data_row (\<lambda>r. ''13.25'') ''2024-01-01'' ''10:00:00'' x
     = ''2024-01-01,10:00:00,13.25'' @ [CHR 0x0D, CHR 0x0A]"
  by (simp add: data_row_def csv_row_def csv_field_def special_def)

lemma header_row_eq: "header_row = ''data,hora,taxa'' @ [CHR 0x0D, CHR 0x0A]"
  by (simp add: header_row_def campos_def csv_row_def csv_field_def special_def)

lemma imagens_py_print [simp]: "imagens (py_print m w) = imagens w"
  by (simp add: imagens_def)

lemma strftime_relogio:
  "strftime_Ymd relogio = ''2024-01-01''" "strftime_HMS relogio = ''10:00:00''"
  by (simp_all add: strftime_Ymd_def strftime_HMS_def relogio_def dec4_def dec2_def digito_def)

lemma taxa_simulada_meio: "taxa_simulada (1 / 2) = 263 / 20"
  by (simp add: taxa_simulada_def py_round_def uniform_def round_half_even_def Let_def)

lemma io_env_ok: "io env_ok = Io_ok"
  by (simp add: env_ok_def)

lemma py_range_2: "py_range 2 = [0, 1]"
  by (simp add: py_range_def upt_rec)

section \<open>Facts about salvar_csv\<close>

lemma chamadas_existente:
  "files w a = Some c \<Longrightarrow> \<forall>x\<in>set cs. fst x = Io_ok \<Longrightarrow>
   chamadas_salvar_csv sf a cs w = (rs, w') \<Longrightarrow>
   files w' a = Some (c @ linhas_de sf cs) \<and> rs = replicate (length cs) (Inr ())"
proof (induction cs arbitrary: w c rs w')
  case Nil
  then show ?case by (simp add: linhas_de_def)
next
  case (Cons x cs)
  obtain falha d h t where x: "x = (falha, d, h, t)" by (cases x) auto
  with Cons.prems have ok: "falha = Io_ok" by simp
  let ?w1 = "snd (salvar_csv sf Io_ok d h t a w)"
  have f1: "files ?w1 a = Some (c @ data_row sf d h t)"
    using Cons.prems(1) by (simp add: salvar_csv_Io_ok conteudo_def pendente_de_def)
  obtain rs2 w2 where r: "chamadas_salvar_csv sf a cs ?w1 = (rs2, w2)" by fastforce
  have all: "\<forall>x\<in>set cs. fst x = Io_ok" using Cons.prems(2) by simp
  from Cons.IH [OF f1 all r]
  have ih: "files w2 a = Some ((c @ data_row sf d h t) @ linhas_de sf cs)"
    "rs2 = replicate (length cs) (Inr ())" by simp_all
  from Cons.prems(3) r x ok have "rs = Inr () # rs2" "w' = w2"
    by (simp_all add: salvar_csv_Io_ok)
  with ih show ?case by (simp add: x linhas_de_def)
qed

lemma chamadas_ausente:
  assumes "files w a = None" "cs \<noteq> []" "\<forall>x\<in>set cs. fst x = Io_ok"
    "chamadas_salvar_csv sf a cs w = (rs, w')"
  shows "files w' a = Some (header_row @ linhas_de sf cs) \<and> rs = replicate (length cs) (Inr ())"
proof -
  obtain falha d h t cs' where cs: "cs = (falha, d, h, t) # cs'"
    using assms(2) by (cases cs) auto
  with assms(3) have ok: "falha = Io_ok" by simp
  let ?w1 = "snd (salvar_csv sf Io_ok d h t a w)"
  have f1: "files ?w1 a = Some (header_row @ data_row sf d h t)"
    using assms(1) by (simp add: salvar_csv_Io_ok conteudo_def pendente_de_def)
  obtain rs2 w2 where r: "chamadas_salvar_csv sf a cs' ?w1 = (rs2, w2)" by fastforce
  have all: "\<forall>x\<in>set cs'. fst x = Io_ok" using assms(3) cs by simp
  from chamadas_existente [OF f1 all r]
  have ih: "files w2 a = Some ((header_row @ data_row sf d h t) @ linhas_de sf cs')"
    "rs2 = replicate (length cs') (Inr ())" by simp_all
  from assms(4) r cs ok have "rs = Inr () # rs2" "w' = w2"
    by (simp_all add: salvar_csv_Io_ok)
  with ih show ?thesis by (simp add: cs linhas_de_def)
qed

lemma chamadas_extracao_existente:
  "files w arquivo_padrao = Some c \<Longrightarrow> \<forall>x\<in>set cs. fst x = Io_ok \<Longrightarrow>
   chamadas_salvar_csv_extracao sf cs w = (rs, w') \<Longrightarrow>
   files w' arquivo_padrao = Some (c @ linhas_de sf cs) \<and> rs = replicate (length cs) (Inr ())"
proof (induction cs arbitrary: w c rs w')
  case Nil
  then show ?case by (simp add: linhas_de_def)
next
  case (Cons x cs)
  obtain falha d h t where x: "x = (falha, d, h, t)" by (cases x) auto
  with Cons.prems have ok: "falha = Io_ok" by simp
  let ?w1 = "snd (salvar_csv_extracao sf Io_ok d h t w)"
  have f1: "files ?w1 arquivo_padrao = Some (c @ data_row sf d h t)"
    using Cons.prems(1) by (simp add: salvar_csv_extracao_Io_ok conteudo_def pendente_de_def)
  obtain rs2 w2 where r: "chamadas_salvar_csv_extracao sf cs ?w1 = (rs2, w2)" by fastforce
  have all: "\<forall>x\<in>set cs. fst x = Io_ok" using Cons.prems(2) by simp
  from Cons.IH [OF f1 all r]
  have ih: "files w2 arquivo_padrao = Some ((c @ data_row sf d h t) @ linhas_de sf cs)"
    "rs2 = replicate (length cs) (Inr ())" by simp_all
  from Cons.prems(3) r x ok have "rs = Inr () # rs2" "w' = w2"
    by (simp_all add: salvar_csv_extracao_Io_ok)
  with ih show ?case by (simp add: x linhas_de_def)
qed

lemma chamadas_extracao_ausente:
  assumes "files w arquivo_padrao = None" "cs \<noteq> []" "\<forall>x\<in>set cs. fst x = Io_ok"
    "chamadas_salvar_csv_extracao sf cs w = (rs, w')"
  shows "files w' arquivo_padrao = Some (header_row @ linhas_de sf cs)
       \<and> rs = replicate (length cs) (Inr ())"
proof -
  obtain falha d h t cs' where cs: "cs = (falha, d, h, t) # cs'"
    using assms(2) by (cases cs) auto
  with assms(3) have ok: "falha = Io_ok" by simp
  let ?w1 = "snd (salvar_csv_extracao sf Io_ok d h t w)"
  have f1: "files ?w1 arquivo_padrao = Some (header_row @ data_row sf d h t)"
    using assms(1) by (simp add: salvar_csv_extracao_Io_ok conteudo_def pendente_de_def)
  obtain rs2 w2 where r: "chamadas_salvar_csv_extracao sf cs' ?w1 = (rs2, w2)" by fastforce
  have all: "\<forall>x\<in>set cs'. fst x = Io_ok" using assms(3) cs by simp
  from chamadas_extracao_existente [OF f1 all r]
  have ih: "files w2 arquivo_padrao = Some ((header_row @ data_row sf d h t) @ linhas_de sf cs')"
    "rs2 = replicate (length cs') (Inr ())" by simp_all
  from assms(4) r cs ok have "rs = Inr () # rs2" "w' = w2"
    by (simp_all add: salvar_csv_extracao_Io_ok)
  with ih show ?thesis by (simp add: cs linhas_de_def)
qed

lemma fst_salvar_csv:
  "fst (salvar_csv sf falha d h t a w) =
     (case falha of Io_ok \<Rightarrow> Inr () | Open_fails e \<Rightarrow> Inl e | Write_fails e k \<Rightarrow> Inl e)"
  by (simp add: salvar_csv_Io_ok salvar_csv_Open_fails salvar_csv_Write_fails
      split: io_outcome.splits)

lemma trace_salvar_csv:
  "\<exists>tr. trace (snd (salvar_csv sf falha d h t a w)) = trace w @ tr
       \<and> filter (\<lambda>ev. ev = Http_get) tr = []"
  by (cases falha)
    (simp_all add: salvar_csv_Io_ok salvar_csv_Open_fails salvar_csv_Write_fails Let_def)

section \<open>Facts about the sampler\<close>

lemma round_half_even_ge: "of_int a \<le> x \<Longrightarrow> a \<le> round_half_even x"
proof -
  assume "of_int a \<le> x"
  then have "a \<le> \<lfloor>x\<rfloor>" by (simp add: le_floor_iff)
  then show ?thesis by (auto simp: round_half_even_def Let_def)
qed

lemma round_half_even_le: "x \<le> of_int b \<Longrightarrow> round_half_even x \<le> b"
proof -
  assume xb: "x \<le> of_int b"
  then have fb: "\<lfloor>x\<rfloor> \<le> b" by (simp add: floor_le_iff) 
  show ?thesis
  proof (cases "\<lfloor>x\<rfloor> = b")
    case True
    then have "of_int b \<le> x" using of_int_floor_le [of x] by simp
    with xb have "x = of_int b" by simp
    then show ?thesis by (simp add: round_half_even_def Let_def)
  next
    case False
    with fb have "\<lfloor>x\<rfloor> + 1 \<le> b" by simp
    with fb show ?thesis by (auto simp: round_half_even_def Let_def)
  qed
qed

lemma taxa_simulada_bounds:
  assumes "0 \<le> u" "u \<le> 1"
  shows "25 / 2 \<le> taxa_simulada u \<and> taxa_simulada u \<le> 69 / 5"
proof -
  let ?y = "uniform (25 / 2) (69 / 5) u * 10 ^ 4"
  have y: "?y = 125000 + 13000 * u" by (simp add: uniform_def algebra_simps)
  have "of_int 125000 \<le> ?y" unfolding y using assms by simp
  then have lo: "125000 \<le> round_half_even ?y" by (rule round_half_even_ge)
  have "?y \<le> of_int 138000" unfolding y using assms by simp
  then have hi: "round_half_even ?y \<le> 138000" by (rule round_half_even_le)
  have t: "taxa_simulada u = of_int (round_half_even ?y) / 10000"
    by (simp add: taxa_simulada_def py_round_def)
  from lo have "(125000::rat) \<le> of_int (round_half_even ?y)"
    by (metis of_int_le_iff of_int_numeral)
  moreover from hi have "of_int (round_half_even ?y) \<le> (138000::rat)"
    by (metis of_int_le_iff of_int_numeral)
  ultimately show ?thesis unfolding t by (simp add: field_simps)
qed

lemma falha_de_rede_requisicao:
  "falha_de_rede env \<Longrightarrow> \<exists>e. requisicao fs env = Inl e \<and> isinstance e RequestException_cls"
  by (auto simp: falha_de_rede_def requisicao_def raise_for_status_def isinstance_def
      split: http_outcome.splits)

lemma extrair_RequestException:
  "requisicao fs env = Inl e \<Longrightarrow> isinstance e RequestException_cls \<Longrightarrow>
   extrair_taxa_cdi fs env w =
     (Inr (strftime_Ymd (agora env), strftime_HMS (agora env), taxa_simulada (sorteio env)),
      py_print Aviso_dados_simulados (emit Http_get w))"
  by (simp add: extrair_taxa_cdi_def Let_def)

lemma fst_extrair:
  "fst (extrair_taxa_cdi fs env w) =
     (case requisicao fs env of
        Inr obs \<Rightarrow> Inr obs
      | Inl e \<Rightarrow> if isinstance e RequestException_cls
                 then Inr (strftime_Ymd (agora env), strftime_HMS (agora env),
                           taxa_simulada (sorteio env))
                 else Inl e)"
  by (simp add: extrair_taxa_cdi_def Let_def split: sum.splits)

lemma trace_extrair:
  "\<exists>t. trace (snd (extrair_taxa_cdi fs env w)) = trace w @ Http_get # t
       \<and> filter (\<lambda>ev. ev = Http_get) t = []"
  by (simp add: extrair_taxa_cdi_def Let_def split: sum.splits)

lemma extrair_reraises:
  "requisicao fs env = Inl e \<Longrightarrow> \<not> isinstance e RequestException_cls \<Longrightarrow>
   fst (extrair_taxa_cdi fs env w) = Inl e"
  by (simp add: extrair_taxa_cdi_def Let_def)

lemma sem_dados_raises:
  "http env = Response st (Decoded dados) \<Longrightarrow> \<not> (400 \<le> st \<and> st < 600) \<Longrightarrow> \<not> truthy dados \<Longrightarrow>
   fst (extrair_taxa_cdi fs env w) = Inl (Exn ValueError ''Nenhum dado CDI encontrado na API'')"
  by (auto simp: extrair_taxa_cdi_def requisicao_def tem_dados_def raise_for_status_def
      isinstance_def Let_def)

lemma valor_ausente_raises:
  assumes "http env = Response st (Decoded (PList rs))" and "\<not> (400 \<le> st \<and> st < 600)"
    and "rs \<noteq> []" and "last rs = PDict kvs" and "map_of kvs ''valor'' = None"
  shows "fst (extrair_taxa_cdi fs env w) = Inl (Exn KeyError ''valor'')"
proof -
  have "requisicao fs env = Inl (Exn KeyError ''valor'')"
    using assms by (auto simp: requisicao_def raise_for_status_def tem_dados_def)
  then show ?thesis
    by (simp add: fst_extrair isinstance_def)
qed

lemma valor_nao_numerico_raises:
  assumes "http env = Response st (Decoded (PList rs))" and "\<not> (400 \<le> st \<and> st < 600)"
    and "rs \<noteq> []" and "last rs = PDict kvs" and "map_of kvs ''valor'' = Some (PStr s)"
    and "fs s = None"
  shows "fst (extrair_taxa_cdi fs env w)
           = Inl (Exn ValueError (''could not convert string to float: '' @ s))"
proof -
  have "requisicao fs env = Inl (Exn ValueError (''could not convert string to float: '' @ s))"
    using assms by (auto simp: requisicao_def raise_for_status_def tem_dados_def)
  then show ?thesis
    by (simp add: fst_extrair isinstance_def)
qed

lemma json_decode_error_of_stdlib_raises:
  assumes "http env = Response st (Undecodable e)" and "\<not> (400 \<le> st \<and> st < 600)"
    and "classe e = Json_JSONDecodeError"
  shows "extrair_taxa_cdi fs env w
           = (Inl e, py_print (Erro_processar_dados e) (emit Http_get w))"
proof -
  have "requisicao fs env = Inl e"
    using assms by (auto simp: requisicao_def raise_for_status_def)
  then show ?thesis
    using assms(3) by (simp add: extrair_taxa_cdi_def isinstance_def)
qed

lemma extrair_env_ok:
  "extrair_taxa_cdi float_exemplo env_ok w
     = (Inr (''2024-01-01'', ''10:00:00'', 53 / 4), emit Http_get w)"
  by (simp add: extrair_taxa_cdi_def requisicao_def env_ok_def tem_dados_def
      raise_for_status_def float_exemplo_def strftime_relogio)

lemma extrair_env_lista_vazia:
  "extrair_taxa_cdi float_exemplo env_lista_vazia w
     = (Inl sem_dados, py_print (Erro_processar_dados sem_dados) (emit Http_get w))"
  by (simp add: extrair_taxa_cdi_def requisicao_def env_lista_vazia_def tem_dados_def
      raise_for_status_def isinstance_def sem_dados_def)

lemma extrair_lista_vazia:
  "fst (extrair_taxa_cdi float_exemplo env_lista_vazia w0) = Inl sem_dados"
  by (simp add: fst_extrair requisicao_def env_lista_vazia_def tem_dados_def
      raise_for_status_def isinstance_def sem_dados_def)

lemma extrair_extracao_Inr:
  "extrair_taxa_cdi_extracao fs env w = (Inr obs, w') \<Longrightarrow> requisicao fs env = Inr obs"
  by (auto simp: extrair_taxa_cdi_extracao_def Let_def split: sum.splits if_splits)

lemma extrair_extracao_RequestException:
  "requisicao fs env = Inl e \<Longrightarrow> isinstance e RequestException_cls \<Longrightarrow>
   extrair_taxa_cdi_extracao fs env w
     = (Inl e, py_print (Erro_fazer_requisicao e) (emit Http_get w))"
  by (simp add: extrair_taxa_cdi_extracao_def Let_def)

lemma main_extracao_falha:
  "extrair_taxa_cdi_extracao fs env (py_print Iniciando_extracao w) = (Inl e, w1) \<Longrightarrow>
   main_extracao fs sf env w = (Inr 1, py_print (Erro_execucao e) w1)"
  by (simp add: main_extracao_def Let_def isinstance_def)

section \<open>Facts about the collector\<close>

lemma iteracao_props:
  "fst (iteracao fs sf i n iv env w) = Inr ()
   \<and> (\<exists>t. trace (snd (iteracao fs sf i n iv env w)) = trace w @ t
          \<and> length (filter (\<lambda>ev. ev = Http_get) t) = 1
          \<and> (\<forall>e w0. fst (extrair_taxa_cdi fs env w0) = Inl e
                \<longrightarrow> Print (Erro_na_coleta (i + 1) e) \<in> set t)
          \<and> (\<forall>e d h tx w0 w1. fst (extrair_taxa_cdi fs env w0) = Inr (d, h, tx)
                \<and> fst (salvar_csv sf (io env) d h tx arquivo_padrao w1) = Inl e
                \<longrightarrow> Print (Erro_na_coleta (i + 1) e) \<in> set t))"
proof -
  obtain r1 w1 where x: "extrair_taxa_cdi fs env w = (r1, w1)" by fastforce
  from trace_extrair [of fs env w] x obtain t1
    where t1: "trace w1 = trace w @ Http_get # t1" "filter (\<lambda>ev. ev = Http_get) t1 = []"
    by auto
  from x have "fst (extrair_taxa_cdi fs env w) = r1" by simp
  then have r1: "\<And>w0. fst (extrair_taxa_cdi fs env w0) = r1"
    unfolding fst_extrair .
  show ?thesis
  proof (cases r1)
    case (Inl e)
    with x have "iteracao fs sf i n iv env w = (Inr (), py_print (Erro_na_coleta (i + 1) e) w1)"
      by (simp add: iteracao_def tentativa_def isinstance_def)
    with t1 r1 Inl show ?thesis by simp
  next
    case (Inr obs)
    obtain d h tx where obs: "obs = (d, h, tx)" by (cases obs) auto
    obtain r2 w2 where s: "salvar_csv sf (io env) d h tx arquivo_padrao w1 = (r2, w2)"
      by fastforce
    from trace_salvar_csv [of sf "io env" d h tx arquivo_padrao w1] s obtain t2
      where t2: "trace w2 = trace w1 @ t2" "filter (\<lambda>ev. ev = Http_get) t2 = []" by auto
    from s have "fst (salvar_csv sf (io env) d h tx arquivo_padrao w1) = r2" by simp
    then have r2: "\<And>w0. fst (salvar_csv sf (io env) d h tx arquivo_padrao w0) = r2"
      unfolding fst_salvar_csv .
    show ?thesis
    proof (cases r2)
      case (Inl e)
      with x s Inr obs
      have "iteracao fs sf i n iv env w = (Inr (), py_print (Erro_na_coleta (i + 1) e) w2)"
        by (simp add: iteracao_def tentativa_def isinstance_def)
      with t1 t2 r1 r2 Inl Inr obs show ?thesis by simp
    next
      case ok: (Inr u)
      let ?w3 = "py_print (Coleta_concluida (i + 1) n) w2"
      have tent: "tentativa fs sf i n iv env w
                   = (if i < n - 1 then sleep iv ?w3 else (Inr (), ?w3))"
        using x s Inr obs ok by (simp add: tentativa_def Let_def)
      obtain r4 w4 where t: "tentativa fs sf i n iv env w = (r4, w4)" by fastforce
      have "\<exists>t4. trace w4 = trace ?w3 @ t4 \<and> filter (\<lambda>ev. ev = Http_get) t4 = []"
        using tent t by (auto simp: sleep_def split: if_splits)
      then obtain t4 where t4: "trace w4 = trace ?w3 @ t4" "filter (\<lambda>ev. ev = Http_get) t4 = []"
        by blast
      have it: "iteracao fs sf i n iv env w =
                 (case r4 of Inr u \<Rightarrow> (Inr (), w4)
                  | Inl e \<Rightarrow> (Inr (), py_print (Erro_na_coleta (i + 1) e) w4))"
        using t by (simp add: iteracao_def isinstance_def split: sum.splits)
      show ?thesis
        using it t1 t2 t4 r1 r2 Inr obs ok by (auto split: sum.splits)
    qed
  qed
qed

lemma laco_props:
  "\<forall>i\<in>set is. 0 \<le> i \<Longrightarrow>
   fst (laco fs sf envs n iv is w) = Inr ()
   \<and> (\<exists>t. trace (snd (laco fs sf envs n iv is w)) = trace w @ t
          \<and> length (filter (\<lambda>ev. ev = Http_get) t) = length is
          \<and> (\<forall>i\<in>set is. \<forall>e w0. fst (extrair_taxa_cdi fs (envs (nat i)) w0) = Inl e
                \<longrightarrow> Print (Erro_na_coleta (i + 1) e) \<in> set t)
          \<and> (\<forall>i\<in>set is. \<forall>e d h tx w0 w1.
                fst (extrair_taxa_cdi fs (envs (nat i)) w0) = Inr (d, h, tx)
                \<and> fst (salvar_csv sf (io (envs (nat i))) d h tx arquivo_padrao w1) = Inl e
                \<longrightarrow> Print (Erro_na_coleta (i + 1) e) \<in> set t))"
proof (induction "is" arbitrary: w)
  case Nil
  then show ?case by simp
next
  case (Cons i js)
  obtain w1 where it: "iteracao fs sf i n iv (envs (nat i)) w = (Inr (), w1)"
    using iteracao_props [of fs sf i n iv "envs (nat i)" w]
    by (cases "iteracao fs sf i n iv (envs (nat i)) w") auto
  from iteracao_props [of fs sf i n iv "envs (nat i)" w] it obtain t1 where
    t1: "trace w1 = trace w @ t1" "length (filter (\<lambda>ev. ev = Http_get) t1) = 1"
      "\<forall>e w0. fst (extrair_taxa_cdi fs (envs (nat i)) w0) = Inl e
                \<longrightarrow> Print (Erro_na_coleta (i + 1) e) \<in> set t1"
      "\<forall>e d h tx w0 w1. fst (extrair_taxa_cdi fs (envs (nat i)) w0) = Inr (d, h, tx)
                \<and> fst (salvar_csv sf (io (envs (nat i))) d h tx arquivo_padrao w1) = Inl e
                \<longrightarrow> Print (Erro_na_coleta (i + 1) e) \<in> set t1"
    by auto
  have l: "laco fs sf envs n iv (i # js) w = laco fs sf envs n iv js w1"
    using it by simp
  from Cons.prems have "\<forall>i\<in>set js. 0 \<le> i" by simp
  from Cons.IH [OF this, of w1] obtain t2 where
    f: "fst (laco fs sf envs n iv js w1) = Inr ()" and
    t2: "trace (snd (laco fs sf envs n iv js w1)) = trace w1 @ t2"
      "length (filter (\<lambda>ev. ev = Http_get) t2) = length js"
      "\<forall>i\<in>set js. \<forall>e w0. fst (extrair_taxa_cdi fs (envs (nat i)) w0) = Inl e
                \<longrightarrow> Print (Erro_na_coleta (i + 1) e) \<in> set t2"
      "\<forall>i\<in>set js. \<forall>e d h tx w0 w1.
                fst (extrair_taxa_cdi fs (envs (nat i)) w0) = Inr (d, h, tx)
                \<and> fst (salvar_csv sf (io (envs (nat i))) d h tx arquivo_padrao w1) = Inl e
                \<longrightarrow> Print (Erro_na_coleta (i + 1) e) \<in> set t2"
    by blast
  have tr: "trace (snd (laco fs sf envs n iv (i # js) w)) = trace w @ (t1 @ t2)"
    using l t1(1) t2(1) by simp
  have cnt: "length (filter (\<lambda>ev. ev = Http_get) (t1 @ t2)) = length (i # js)"
    using t1(2) t2(2) by simp
  have e1: "\<forall>k\<in>set (i # js). \<forall>e w0. fst (extrair_taxa_cdi fs (envs (nat k)) w0) = Inl e
                \<longrightarrow> Print (Erro_na_coleta (k + 1) e) \<in> set (t1 @ t2)"
    using t1(3) t2(3) by auto
  have e2: "\<forall>k\<in>set (i # js). \<forall>e d h tx w0 w1.
                fst (extrair_taxa_cdi fs (envs (nat k)) w0) = Inr (d, h, tx)
                \<and> fst (salvar_csv sf (io (envs (nat k))) d h tx arquivo_padrao w1) = Inl e
                \<longrightarrow> Print (Erro_na_coleta (k + 1) e) \<in> set (t1 @ t2)"
  proof (intro ballI allI impI)
    fix k e d h tx w0 w1
    assume k: "k \<in> set (i # js)"
      and a: "fst (extrair_taxa_cdi fs (envs (nat k)) w0) = Inr (d, h, tx)
                \<and> fst (salvar_csv sf (io (envs (nat k))) d h tx arquivo_padrao w1) = Inl e"
    show "Print (Erro_na_coleta (k + 1) e) \<in> set (t1 @ t2)"
    proof (cases "k = i")
      case True
      with a t1(4) have "Print (Erro_na_coleta (k + 1) e) \<in> set t1" by blast
      then show ?thesis by simp
    next
      case False
      with k have "k \<in> set js" by simp
      with a t2(4) have "Print (Erro_na_coleta (k + 1) e) \<in> set t2" by blast
      then show ?thesis by simp
    qed
  qed
  from f l have "fst (laco fs sf envs n iv (i # js) w) = Inr ()" by simp
  with tr cnt e1 e2 show ?case by blast
qed

lemma successful_attempt_is_followed_by_a_pause:
  "trace (snd (coletar_multiplas_vezes float_exemplo (\<lambda>r. ''13.25'') (\<lambda>k. env_ok) 2 2
                 mundo_vazio))
     = [Print (Realizando_coletas 2 2),
        Http_get, Print (Dados_salvos ''2024-01-01'' ''10:00:00'' (53 / 4)),
        Print (Coleta_concluida 1 2), Sleep 2,
        Http_get, Print (Dados_salvos ''2024-01-01'' ''10:00:00'' (53 / 4)),
        Print (Coleta_concluida 2 2)]"
  by (simp add: coletar_multiplas_vezes_def py_range_2 iteracao_def tentativa_def
      extrair_env_ok sleep_def
      salvar_csv_Io_ok isinstance_def io_env_ok mundo_vazio_def)

section \<open>Facts about the reader\<close>

lemma ler_falta_coluna:
  "files w a = Some c \<Longrightarrow> read_csv c = Inr df \<Longrightarrow> falta_coluna df \<Longrightarrow>
   ler_dados_csv read_csv a w = (Inl colunas_erradas, py_print (Erro_ler_csv colunas_erradas) w)"
  by (auto simp: ler_dados_csv_def falta_coluna_def colunas_erradas_def isinstance_def)

lemma ler_ausente:
  "files w a = None \<Longrightarrow>
   ler_dados_csv read_csv a w = (Inl (nao_encontrado a), py_print (Erro_ler_csv (nao_encontrado a)) w)"
  by (simp add: ler_dados_csv_def nao_encontrado_def isinstance_def)

lemma main_ler_falha:
  "ler_dados_csv read_csv arquivo_padrao (py_print Lendo_dados w) = (Inl e, w1) \<Longrightarrow>
   2 \<le> length argv \<Longrightarrow>
   main_visualizacao read_csv plot_falha argv w = (Inr 1, py_print (Erro_execucao e) w1)"
  by (simp add: main_visualizacao_def Let_def isinstance_def)

lemma main_sem_argumento:
  "length argv < 2 \<Longrightarrow>
   main_visualizacao read_csv plot_falha argv w = (Inr 1, py_print Exemplo (py_print Uso w))"
  by (simp add: main_visualizacao_def)

lemma main_falha_sem_imagem:
  assumes "fst (ler_dados_csv read_csv arquivo_padrao (py_print Lendo_dados w)) = Inl e"
    "snd (ler_dados_csv read_csv arquivo_padrao (py_print Lendo_dados w))
       = py_print (Erro_ler_csv e) (py_print Lendo_dados w)"
  shows "fst (main_visualizacao read_csv plot_falha argv w) = Inr 1
       \<and> imagens (snd (main_visualizacao read_csv plot_falha argv w)) = imagens w"
proof (cases "length argv < 2")
  case True
  then show ?thesis by (simp add: main_sem_argumento)
next
  case False
  then have l: "2 \<le> length argv" by simp
  from assms have "ler_dados_csv read_csv arquivo_padrao (py_print Lendo_dados w)
        = (Inl e, py_print (Erro_ler_csv e) (py_print Lendo_dados w))"
    by (metis prod.collapse)
  from main_ler_falha [OF this l] show ?thesis by simp
qed

lemma imagem_produzida:
  "imagens (snd (main_visualizacao (\<lambda>c. Inr \<lparr>colunas = [''data'', ''hora'', ''taxa''], linhas = []\<rparr>)
       None [''visualizacao.py'', ''grafico-cdi'']
       \<lparr>files = [''taxa-cdi.csv'' \<mapsto> ''data,hora,taxa'' @ [CHR 0x0D, CHR 0x0A]], trace = []\<rparr>))
   = [''grafico-cdi.png'']"
  by (simp add: main_visualizacao_def ler_dados_csv_def gerar_grafico_def arquivo_padrao_def
      imagens_def isinstance_def Let_def)

section \<open>The claims\<close>

text \<open>
  C1. Starting from a path that does not exist, after \<open>N \<ge> 1\<close> calls of
  \<^verbatim>\<open>salvar_csv\<close> that meet no I/O fault, every call has returned normally and the file
  is the header row \<^verbatim>\<open>data,hora,taxa\<close> once, followed by the \<open>N\<close> data rows in call
  order, whatever \<open>N\<close> is; this holds for \<^verbatim>\<open>analise.py\<close> (any path) and for
  \<^verbatim>\<open>extracao.py\<close> (the fixed path). After no call at all the path is still absent,
  and a call that meets an I/O fault raises instead of writing its row (C7), so the
  statement is about the file that results from calls that complete. Its instance at one
  call with 2024-01-01, 10:00:00 and 13.25 is Scenario A.
\<close>

theorem header_once_then_N_rows:
  assumes "cs \<noteq> []" and "\<forall>x\<in>set cs. fst x = Io_ok"
  shows "(files w arquivo = None \<longrightarrow>
            fst (chamadas_salvar_csv str_float arquivo cs w) = replicate (length cs) (Inr ())
            \<and> files (snd (chamadas_salvar_csv str_float arquivo cs w)) arquivo
                = Some (header_row @ linhas_de str_float cs))
       \<and> (files w arquivo_padrao = None \<longrightarrow>
            fst (chamadas_salvar_csv_extracao str_float cs w) = replicate (length cs) (Inr ())
            \<and> files (snd (chamadas_salvar_csv_extracao str_float cs w)) arquivo_padrao
                = Some (header_row @ linhas_de str_float cs))"
proof (intro conjI impI)
  assume a: "files w arquivo = None"
  obtain rs w' where r: "chamadas_salvar_csv str_float arquivo cs w = (rs, w')" by fastforce
  from chamadas_ausente [OF a assms r] r
  show "fst (chamadas_salvar_csv str_float arquivo cs w) = replicate (length cs) (Inr ())"
    and "files (snd (chamadas_salvar_csv str_float arquivo cs w)) arquivo
                = Some (header_row @ linhas_de str_float cs)" by simp_all
next
  assume a: "files w arquivo_padrao = None"
  obtain rs w' where r: "chamadas_salvar_csv_extracao str_float cs w = (rs, w')" by fastforce
  from chamadas_extracao_ausente [OF a assms r] r
  show "fst (chamadas_salvar_csv_extracao str_float cs w) = replicate (length cs) (Inr ())"
    and "files (snd (chamadas_salvar_csv_extracao str_float cs w)) arquivo_padrao
                = Some (header_row @ linhas_de str_float cs)" by simp_all
qed

theorem header_once_then_N_rows_witness:
  "cenario_A \<noteq> [] \<and> map fst cenario_A = [Io_ok]
   \<and> files mundo_vazio ''taxa-cdi.csv'' = None
   \<and> files (snd (chamadas_salvar_csv (\<lambda>r. ''13.25'') ''taxa-cdi.csv'' cenario_A mundo_vazio))
        ''taxa-cdi.csv''
      = Some (''data,hora,taxa'' @ [CHR 0x0D, CHR 0x0A]
              @ ''2024-01-01,10:00:00,13.25'' @ [CHR 0x0D, CHR 0x0A])
   \<and> files (snd (chamadas_salvar_csv_extracao (\<lambda>r. ''13.25'') cenario_A mundo_vazio))
        ''taxa-cdi.csv''
      = Some (''data,hora,taxa'' @ [CHR 0x0D, CHR 0x0A]
              @ ''2024-01-01,10:00:00,13.25'' @ [CHR 0x0D, CHR 0x0A])"
proof -
  have h1: "cenario_A \<noteq> []" and h2: "\<forall>x\<in>set cenario_A. fst x = Io_ok"
    by (simp_all add: cenario_A_def)
  have h3: "files mundo_vazio ''taxa-cdi.csv'' = None"
    and h4: "files mundo_vazio arquivo_padrao = None"
    by (simp_all add: mundo_vazio_def)
  have l: "linhas_de (\<lambda>r. ''13.25'') cenario_A = ''2024-01-01,10:00:00,13.25'' @ [CHR 0x0D, CHR 0x0A]"
    by (simp add: linhas_de_def cenario_A_def data_row_exemplo)
  have h5: "map fst cenario_A = [Io_ok]" by (simp add: cenario_A_def)
  show ?thesis
    using h1 h3 h4 h5
      header_once_then_N_rows [OF h1 h2, of mundo_vazio "''taxa-cdi.csv''" "\<lambda>r. ''13.25''"]
    by (simp add: l header_row_eq arquivo_padrao_def)
qed

text \<open>
  C2. For every count \<open>K \<ge> 1\<close> the collector returns normally, whatever the
  network, the clock and the file system do in each iteration; it makes exactly \<open>K\<close>
  requests, one per attempt; and when the sampler raises \<open>e\<close> in the iteration of index
  \<open>k\<close>, or the sampler returns and \<^verbatim>\<open>salvar_csv\<close> raises \<open>e\<close>, the line
  \<^verbatim>\<open>Erro na coleta k+1: e\<close> is printed and the later iterations still run.
\<close>

theorem collector_attempts_all_and_never_raises:
  assumes "1 \<le> K"
  shows "fst (coletar_multiplas_vezes float_str str_float envs K intervalo w) = Inr ()
    \<and> int (requisicoes (snd (coletar_multiplas_vezes float_str str_float envs K intervalo w)))
        = int (requisicoes w) + K
    \<and> (\<forall>k e w0. k < nat K \<and> fst (extrair_taxa_cdi float_str (envs k) w0) = Inl e
          \<longrightarrow> Print (Erro_na_coleta (int k + 1) e)
                \<in> set (trace (snd (coletar_multiplas_vezes float_str str_float envs K intervalo w))))
    \<and> (\<forall>k e d h t w0 w1. k < nat K
          \<and> fst (extrair_taxa_cdi float_str (envs k) w0) = Inr (d, h, t)
          \<and> fst (salvar_csv str_float (io (envs k)) d h t arquivo_padrao w1) = Inl e
          \<longrightarrow> Print (Erro_na_coleta (int k + 1) e)
                \<in> set (trace (snd (coletar_multiplas_vezes float_str str_float envs K intervalo w))))"
proof -
  let ?w0 = "py_print (Realizando_coletas K intervalo) w"
  let ?r = "laco float_str str_float envs K intervalo (py_range K) ?w0"
  have c: "coletar_multiplas_vezes float_str str_float envs K intervalo w = ?r"
    by (simp add: coletar_multiplas_vezes_def)
  have pos: "\<forall>i\<in>set (py_range K). 0 \<le> i" by (auto simp: py_range_def)
  from laco_props [OF pos, of float_str str_float envs K intervalo ?w0] obtain t where
    f: "fst ?r = Inr ()" and
    t: "trace (snd ?r) = trace ?w0 @ t"
      "length (filter (\<lambda>ev. ev = Http_get) t) = length (py_range K)"
      "\<forall>i\<in>set (py_range K). \<forall>e w0. fst (extrair_taxa_cdi float_str (envs (nat i)) w0) = Inl e
                \<longrightarrow> Print (Erro_na_coleta (i + 1) e) \<in> set t"
      "\<forall>i\<in>set (py_range K). \<forall>e d h tx w0 w1.
                fst (extrair_taxa_cdi float_str (envs (nat i)) w0) = Inr (d, h, tx)
                \<and> fst (salvar_csv str_float (io (envs (nat i))) d h tx arquivo_padrao w1) = Inl e
                \<longrightarrow> Print (Erro_na_coleta (i + 1) e) \<in> set t"
    by blast
  have len: "int (length (py_range K)) = K" using assms by (simp add: py_range_def)
  have mem: "\<And>k. k < nat K \<Longrightarrow> int k \<in> set (py_range K)" by (simp add: py_range_def)
  have n: "int (requisicoes (snd ?r)) = int (requisicoes w) + K"
    using t(1,2) len by (simp add: requisicoes_def)
  have e1: "\<forall>k e w0. k < nat K \<and> fst (extrair_taxa_cdi float_str (envs k) w0) = Inl e
          \<longrightarrow> Print (Erro_na_coleta (int k + 1) e) \<in> set (trace (snd ?r))"
  proof (intro allI impI)
    fix k e w0
    assume a: "k < nat K \<and> fst (extrair_taxa_cdi float_str (envs k) w0) = Inl e"
    with mem have "int k \<in> set (py_range K)" by simp
    with t(3) a have "Print (Erro_na_coleta (int k + 1) e) \<in> set t" by fastforce
    with t(1) show "Print (Erro_na_coleta (int k + 1) e) \<in> set (trace (snd ?r))" by simp
  qed
  have e2: "\<forall>k e d h t w0 w1. k < nat K
          \<and> fst (extrair_taxa_cdi float_str (envs k) w0) = Inr (d, h, t)
          \<and> fst (salvar_csv str_float (io (envs k)) d h t arquivo_padrao w1) = Inl e
          \<longrightarrow> Print (Erro_na_coleta (int k + 1) e) \<in> set (trace (snd ?r))"
  proof (intro allI impI)
    fix k e d h tx w0 w1
    assume a: "k < nat K
          \<and> fst (extrair_taxa_cdi float_str (envs k) w0) = Inr (d, h, tx)
          \<and> fst (salvar_csv str_float (io (envs k)) d h tx arquivo_padrao w1) = Inl e"
    with mem have "int k \<in> set (py_range K)" by simp
    with t(4) a have "Print (Erro_na_coleta (int k + 1) e) \<in> set t" by fastforce
    with t(1) show "Print (Erro_na_coleta (int k + 1) e) \<in> set (trace (snd ?r))" by simp
  qed
  from f n e1 e2 show ?thesis unfolding c by blast
qed

theorem collector_attempts_all_and_never_raises_witness:
  "(1::int) \<le> 3
   \<and> fst (extrair_taxa_cdi float_exemplo (envs_segunda_falha 1) mundo_vazio) = Inl sem_dados
   \<and> fst (coletar_multiplas_vezes float_exemplo (\<lambda>r. ''13.25'') envs_segunda_falha 3 0 mundo_vazio)
       = Inr ()
   \<and> requisicoes (snd (coletar_multiplas_vezes float_exemplo (\<lambda>r. ''13.25'') envs_segunda_falha 3 0
                         mundo_vazio)) = 3
   \<and> Print (Erro_na_coleta 2 sem_dados)
       \<in> set (trace (snd (coletar_multiplas_vezes float_exemplo (\<lambda>r. ''13.25'') envs_segunda_falha
                            3 0 mundo_vazio)))"
proof -
  have h: "(1::int) \<le> 3" by simp
  have x: "fst (extrair_taxa_cdi float_exemplo (envs_segunda_falha 1) mundo_vazio) = Inl sem_dados"
    by (simp add: envs_segunda_falha_def extrair_lista_vazia)
  have r: "requisicoes mundo_vazio = 0" by (simp add: requisicoes_def mundo_vazio_def)
  have k: "(1::nat) < nat 3" by simp
  from collector_attempts_all_and_never_raises [OF h, of float_exemplo "\<lambda>r. ''13.25''"
      envs_segunda_falha 0 mundo_vazio]
  have a: "fst (coletar_multiplas_vezes float_exemplo (\<lambda>r. ''13.25'') envs_segunda_falha 3 0
                  mundo_vazio) = Inr ()"
    and b: "int (requisicoes (snd (coletar_multiplas_vezes float_exemplo (\<lambda>r. ''13.25'')
                  envs_segunda_falha 3 0 mundo_vazio))) = int (requisicoes mundo_vazio) + 3"
    and c: "\<forall>k e w0. k < nat 3 \<and> fst (extrair_taxa_cdi float_exemplo (envs_segunda_falha k) w0) = Inl e
          \<longrightarrow> Print (Erro_na_coleta (int k + 1) e)
                \<in> set (trace (snd (coletar_multiplas_vezes float_exemplo (\<lambda>r. ''13.25'')
                     envs_segunda_falha 3 0 mundo_vazio)))"
    by blast+
  from c k x have "Print (Erro_na_coleta (int 1 + 1) sem_dados)
       \<in> set (trace (snd (coletar_multiplas_vezes float_exemplo (\<lambda>r. ''13.25'') envs_segunda_falha
                            3 0 mundo_vazio)))" by blast
  with h x a b r show ?thesis by simp
qed

text \<open>
  C3. The claim says that an undecodable body makes the sampler of \<^verbatim>\<open>analise.py\<close>
  raise a parse error and never substitute a synthesized observation. The second
  \<^verbatim>\<open>except\<close> clause names \<^verbatim>\<open>json.JSONDecodeError\<close> for that purpose, but the
  exception \<^verbatim>\<open>response.json()\<close> raises is also a \<^verbatim>\<open>RequestException\<close>, and the
  first clause, the one of the fallback, takes it: on a response with status 200 and a
  body that is not JSON the sampler prints the warning and returns a synthesized
  observation. (An empty payload, a missing \<^verbatim>\<open>valor\<close> and a string that is not a number
  are raised, as the claim says: \<open>sem_dados_raises\<close>, \<open>valor_ausente_raises\<close>,
  \<open>valor_nao_numerico_raises\<close>; so is the \<^verbatim>\<open>json.JSONDecodeError\<close> of the standard
  library, which requests before 2.27 let through:
  \<open>json_decode_error_of_stdlib_raises\<close>.)
\<close>

theorem undecodable_body_replaced_by_synthesized:
  "extrair_taxa_cdi float_exemplo env_html mundo_vazio
     = (Inr (''2024-01-01'', ''10:00:00'', 263 / 20),
        \<lparr>files = Map.empty, trace = [Http_get, Print Aviso_dados_simulados]\<rparr>)"
  by (simp add: extrair_taxa_cdi_def requisicao_def env_html_def corpo_html_def
      raise_for_status_def isinstance_def strftime_relogio taxa_simulada_meio
      mundo_vazio_def py_print_def emit_def)

text \<open>
  C4. On a network-layer failure the sampler of \<^verbatim>\<open>analise.py\<close> raises nothing: it
  prints the warning and returns the triple of the current date, the current time and
  the rate \<^verbatim>\<open>round(random.uniform(12.5, 13.8), 4)\<close>, which lies between 12.5 and 13.8
  for every draw of \<^verbatim>\<open>random()\<close> in [0, 1).
\<close>

theorem network_failure_gives_synthesized_observation:
  assumes "falha_de_rede env" and "0 \<le> sorteio env" and "sorteio env < 1"
  shows "extrair_taxa_cdi float_str env w =
            (Inr (strftime_Ymd (agora env), strftime_HMS (agora env),
                  taxa_simulada (sorteio env)),
             py_print Aviso_dados_simulados (emit Http_get w))
          \<and> 25 / 2 \<le> taxa_simulada (sorteio env)
          \<and> taxa_simulada (sorteio env) \<le> 69 / 5"
proof -
  from falha_de_rede_requisicao [OF assms(1)] obtain e
    where e: "requisicao float_str env = Inl e" "isinstance e RequestException_cls" by blast
  from assms have "25 / 2 \<le> taxa_simulada (sorteio env) \<and> taxa_simulada (sorteio env) \<le> 69 / 5"
    by (intro taxa_simulada_bounds) simp_all
  with extrair_RequestException [OF e] show ?thesis by simp
qed

theorem network_failure_gives_synthesized_observation_witness:
  "falha_de_rede env_timeout \<and> 0 \<le> sorteio env_timeout \<and> sorteio env_timeout < 1
   \<and> extrair_taxa_cdi (\<lambda>s. None) env_timeout mundo_vazio
       = (Inr (''2024-01-01'', ''10:00:00'', 263 / 20),
          \<lparr>files = Map.empty, trace = [Http_get, Print Aviso_dados_simulados]\<rparr>)
   \<and> (25 / 2 :: rat) \<le> 263 / 20 \<and> (263 / 20 :: rat) \<le> 69 / 5"
proof -
  have h1: "falha_de_rede env_timeout"
    by (simp add: falha_de_rede_def env_timeout_def)
  have h2: "0 \<le> sorteio env_timeout" and h3: "sorteio env_timeout < 1"
    by (simp_all add: env_timeout_def)
  have a: "agora env_timeout = relogio" and s: "sorteio env_timeout = 1 / 2"
    by (simp_all add: env_timeout_def)
  show ?thesis
    using h1 h2 h3
      network_failure_gives_synthesized_observation [OF h1 h2 h3, of "\<lambda>s. None" mundo_vazio]
    by (simp add: a s strftime_relogio taxa_simulada_meio mundo_vazio_def py_print_def emit_def)
qed

text \<open>
  C5. Whatever the file system does at a call of \<^verbatim>\<open>salvar_csv\<close>, no other path
  changes and the bytes the file held before the call stay where they were: the new
  content is the old content followed by what the call wrote, which is a prefix of the
  data row and, when the call returns normally, exactly the data row (preceded by the
  header exactly when the path did not exist). What is written does not depend on the
  old content.
\<close>

theorem append_preserves_prior_content:
  "(\<forall>p. p \<noteq> arquivo \<longrightarrow>
        files (snd (salvar_csv str_float falha d h t arquivo w)) p = files w p)
   \<and> (\<forall>c. files w arquivo = Some c \<longrightarrow>
        (\<exists>s. files (snd (salvar_csv str_float falha d h t arquivo w)) arquivo = Some (c @ s)
             \<and> prefix s (data_row str_float d h t)
             \<and> (fst (salvar_csv str_float falha d h t arquivo w) = Inr ()
                  \<longrightarrow> s = data_row str_float d h t)))
   \<and> (files w arquivo = None \<and> fst (salvar_csv str_float falha d h t arquivo w) = Inr ()
        \<longrightarrow> files (snd (salvar_csv str_float falha d h t arquivo w)) arquivo
              = Some (header_row @ data_row str_float d h t))"
proof (cases falha)
  case Io_ok
  then show ?thesis
    by (simp add: salvar_csv_Io_ok pendente_de_def conteudo_def)
next
  case (Open_fails e)
  then show ?thesis
    by (simp add: salvar_csv_Open_fails)
next
  case (Write_fails e k)
  then show ?thesis
    by (simp add: salvar_csv_Write_fails pendente_de_def conteudo_def Let_def take_is_prefix)
qed

theorem append_preserves_prior_content_witness:
  "files mundo_um_registro ''taxa-cdi.csv'' = Some registro_anterior
   \<and> fst (salvar_csv (\<lambda>r. ''13.25'') Io_ok ''2024-01-01'' ''10:00:00'' (53 / 4)
           ''taxa-cdi.csv'' mundo_um_registro) = Inr ()
   \<and> files (snd (salvar_csv (\<lambda>r. ''13.25'') Io_ok ''2024-01-01'' ''10:00:00'' (53 / 4)
                  ''taxa-cdi.csv'' mundo_um_registro)) ''taxa-cdi.csv''
       = Some (registro_anterior @ ''2024-01-01,10:00:00,13.25'' @ [CHR 0x0D, CHR 0x0A])
   \<and> files (snd (salvar_csv (\<lambda>r. ''13.25'') Io_ok ''2024-01-01'' ''10:00:00'' (53 / 4)
                  ''taxa-cdi.csv'' mundo_um_registro)) ''outro.csv'' = None
   \<and> (\<exists>s. files (snd (salvar_csv (\<lambda>r. ''13.25'') (Write_fails disco_cheio 4) ''2024-01-01''
                  ''10:00:00'' (53 / 4) ''taxa-cdi.csv'' mundo_um_registro)) ''taxa-cdi.csv''
             = Some (registro_anterior @ s))"
proof -
  have h: "files mundo_um_registro ''taxa-cdi.csv'' = Some registro_anterior"
    by (simp add: mundo_um_registro_def)
  have o: "files mundo_um_registro ''outro.csv'' = None"
    by (simp add: mundo_um_registro_def)
  have r: "fst (salvar_csv (\<lambda>r. ''13.25'') Io_ok ''2024-01-01'' ''10:00:00'' (53 / 4)
           ''taxa-cdi.csv'' mundo_um_registro) = Inr ()"
    by (simp add: salvar_csv_Io_ok)
  have n: "''outro.csv'' \<noteq> ''taxa-cdi.csv''" by simp
  show ?thesis
    using h o r n
      append_preserves_prior_content [of "''taxa-cdi.csv''" "\<lambda>r. ''13.25''" Io_ok
        "''2024-01-01''" "''10:00:00''" "53 / 4" mundo_um_registro]
      append_preserves_prior_content [of "''taxa-cdi.csv''" "\<lambda>r. ''13.25''"
        "Write_fails disco_cheio 4" "''2024-01-01''" "''10:00:00''" "53 / 4" mundo_um_registro]
    by (auto simp: data_row_exemplo)
qed

text \<open>
  C6. The claim says that the collector pauses for the interval after every attempt but
  the last, failed attempts included, as the docstring (the interval between each
  collection) and the comment at the pause (wait before the next collection, except at
  the last) say. The pause is inside the \<^verbatim>\<open>try\<close>, after the save: an attempt that
  raises jumps to the handler and the next attempt starts at once. With two attempts and
  an interval of 2, when the first attempt fails on an empty payload, the run makes both
  requests and never pauses (compare \<open>successful_attempt_is_followed_by_a_pause\<close>).
\<close>

theorem failed_attempt_is_not_followed_by_a_pause:
  "trace (snd (coletar_multiplas_vezes float_exemplo (\<lambda>r. ''13.25'') envs_primeira_falha 2 2
                 mundo_vazio))
     = [Print (Realizando_coletas 2 2),
        Http_get, Print (Erro_processar_dados sem_dados), Print (Erro_na_coleta 1 sem_dados),
        Http_get, Print (Dados_salvos ''2024-01-01'' ''10:00:00'' (53 / 4)),
        Print (Coleta_concluida 2 2)]
   \<and> requisicoes (snd (coletar_multiplas_vezes float_exemplo (\<lambda>r. ''13.25'')
                          envs_primeira_falha 2 2 mundo_vazio)) = 2
   \<and> pausas (snd (coletar_multiplas_vezes float_exemplo (\<lambda>r. ''13.25'')
                     envs_primeira_falha 2 2 mundo_vazio)) = []"
proof -
  have "trace (snd (coletar_multiplas_vezes float_exemplo (\<lambda>r. ''13.25'') envs_primeira_falha
                      2 2 mundo_vazio))
     = [Print (Realizando_coletas 2 2),
        Http_get, Print (Erro_processar_dados sem_dados), Print (Erro_na_coleta 1 sem_dados),
        Http_get, Print (Dados_salvos ''2024-01-01'' ''10:00:00'' (53 / 4)),
        Print (Coleta_concluida 2 2)]"
    by (simp add: coletar_multiplas_vezes_def py_range_2 iteracao_def tentativa_def
        envs_primeira_falha_def extrair_env_ok extrair_env_lista_vazia
        salvar_csv_Io_ok isinstance_def io_env_ok mundo_vazio_def)
  then show ?thesis by (simp add: requisicoes_def pausas_def)
qed

text \<open>
  C7. An I/O failure inside \<^verbatim>\<open>salvar_csv\<close> is an \<^verbatim>\<open>OSError\<close> (\<^verbatim>\<open>IOError\<close>) raised
  by \<^verbatim>\<open>open\<close> or by the write: permission denied, no space left, a path that cannot be
  opened. In both scripts the call then prints the diagnostic
  \<^verbatim>\<open>Erro ao salvar arquivo CSV: e\<close> as its only output and raises the same exception to
  its caller.
\<close>

theorem io_failure_logged_and_reraised:
  assumes "isinstance e IOError_cls"
    and "falha = Open_fails e \<or> falha = Write_fails e k"
  shows "fst (salvar_csv str_float falha d h t arquivo w) = Inl e
       \<and> trace (snd (salvar_csv str_float falha d h t arquivo w))
           = trace w @ [Print (Erro_salvar_csv e)]
       \<and> fst (salvar_csv_extracao str_float falha d h t w) = Inl e
       \<and> trace (snd (salvar_csv_extracao str_float falha d h t w))
           = trace w @ [Print (Erro_salvar_csv e)]"
  using assms
  by (auto simp: salvar_csv_Open_fails salvar_csv_Write_fails
      salvar_csv_extracao_Open_fails salvar_csv_extracao_Write_fails Let_def)

theorem io_failure_logged_and_reraised_witness:
  "isinstance permissao_negada IOError_cls
   \<and> fst (salvar_csv (\<lambda>r. ''13.25'') (Open_fails permissao_negada)
           ''2024-01-01'' ''10:00:00'' (53 / 4) ''taxa-cdi.csv'' mundo_vazio)
       = Inl permissao_negada
   \<and> trace (snd (salvar_csv (\<lambda>r. ''13.25'') (Open_fails permissao_negada)
           ''2024-01-01'' ''10:00:00'' (53 / 4) ''taxa-cdi.csv'' mundo_vazio))
       = [Print (Erro_salvar_csv permissao_negada)]
   \<and> fst (salvar_csv_extracao (\<lambda>r. ''13.25'') (Open_fails permissao_negada)
           ''2024-01-01'' ''10:00:00'' (53 / 4) mundo_vazio)
       = Inl permissao_negada"
proof -
  have h: "isinstance permissao_negada IOError_cls"
    by (simp add: isinstance_def permissao_negada_def)
  show ?thesis
    using h io_failure_logged_and_reraised [OF h, of "Open_fails permissao_negada" 0
        "\<lambda>r. ''13.25''" "''2024-01-01''" "''10:00:00''" "53 / 4" "''taxa-cdi.csv''" mundo_vazio]
    by (simp add: mundo_vazio_def)
qed

text \<open>
  C8. When the file exists and the frame read from it lacks \<^verbatim>\<open>hora\<close> or \<^verbatim>\<open>taxa\<close>,
  \<^verbatim>\<open>ler_dados_csv\<close> prints and raises the \<^verbatim>\<open>ValueError\<close> that names the two
  required columns, and \<^verbatim>\<open>main\<close> returns 1 without writing an image. When the file is
  absent it raises \<^verbatim>\<open>FileNotFoundError\<close> with the path in its message whatever the
  parser would do, so before any parsing, and again no image is written. A frame it
  returns always has both columns.
\<close>

theorem reader_rejects_missing_columns_and_absent_file:
  "(files w arquivo = Some c \<and> read_csv c = Inr df \<and> falta_coluna df \<longrightarrow>
      ler_dados_csv read_csv arquivo w
        = (Inl colunas_erradas, py_print (Erro_ler_csv colunas_erradas) w))
   \<and> (files w arquivo_padrao = Some c \<and> read_csv c = Inr df \<and> falta_coluna df \<longrightarrow>
      fst (main_visualizacao read_csv plot_falha argv w) = Inr 1
      \<and> imagens (snd (main_visualizacao read_csv plot_falha argv w)) = imagens w)
   \<and> (files w arquivo = None \<longrightarrow>
      ler_dados_csv read_csv arquivo w
        = (Inl (nao_encontrado arquivo), py_print (Erro_ler_csv (nao_encontrado arquivo)) w))
   \<and> (files w arquivo_padrao = None \<longrightarrow>
      fst (main_visualizacao read_csv plot_falha argv w) = Inr 1
      \<and> imagens (snd (main_visualizacao read_csv plot_falha argv w)) = imagens w)
   \<and> (\<forall>df' w'. ler_dados_csv read_csv arquivo w = (Inr df', w') \<longrightarrow>
         \<not> falta_coluna df' \<and> files w arquivo \<noteq> None)"
proof -
  have r5: "\<forall>df' w'. ler_dados_csv read_csv arquivo w = (Inr df', w') \<longrightarrow>
         \<not> falta_coluna df' \<and> files w arquivo \<noteq> None"
  proof (intro allI impI)
    fix df' w'
    assume a: "ler_dados_csv read_csv arquivo w = (Inr df', w')"
    show "\<not> falta_coluna df' \<and> files w arquivo \<noteq> None"
    proof (cases "files w arquivo")
      case None
      with a show ?thesis by (simp add: ler_ausente)
    next
      case (Some c)
      show ?thesis
      proof (cases "read_csv c")
        case (Inl e)
        with a Some show ?thesis by (simp add: ler_dados_csv_def isinstance_def)
      next
        case (Inr df)
        with a Some show ?thesis
          by (cases "falta_coluna df")
            (simp_all add: ler_dados_csv_def falta_coluna_def isinstance_def)
      qed
    qed
  qed
  have r1: "ler_dados_csv read_csv arquivo w
        = (Inl colunas_erradas, py_print (Erro_ler_csv colunas_erradas) w)"
    if "files w arquivo = Some c \<and> read_csv c = Inr df \<and> falta_coluna df"
    using that by (simp add: ler_falta_coluna)
  have r2: "fst (main_visualizacao read_csv plot_falha argv w) = Inr 1
      \<and> imagens (snd (main_visualizacao read_csv plot_falha argv w)) = imagens w"
    if a: "files w arquivo_padrao = Some c \<and> read_csv c = Inr df \<and> falta_coluna df"
  proof -
    from a have "files (py_print Lendo_dados w) arquivo_padrao = Some c" by simp
    from ler_falta_coluna [OF this] a
    have "ler_dados_csv read_csv arquivo_padrao (py_print Lendo_dados w)
        = (Inl colunas_erradas,
           py_print (Erro_ler_csv colunas_erradas) (py_print Lendo_dados w))"
      by simp
    then show ?thesis
      using main_falha_sem_imagem [of read_csv w colunas_erradas plot_falha argv] by simp
  qed
  have r3: "ler_dados_csv read_csv arquivo w
        = (Inl (nao_encontrado arquivo), py_print (Erro_ler_csv (nao_encontrado arquivo)) w)"
    if "files w arquivo = None"
    using that by (rule ler_ausente)
  have r4: "fst (main_visualizacao read_csv plot_falha argv w) = Inr 1
      \<and> imagens (snd (main_visualizacao read_csv plot_falha argv w)) = imagens w"
    if a: "files w arquivo_padrao = None"
  proof -
    from a have "files (py_print Lendo_dados w) arquivo_padrao = None" by simp
    from ler_ausente [OF this]
    have "ler_dados_csv read_csv arquivo_padrao (py_print Lendo_dados w)
        = (Inl (nao_encontrado arquivo_padrao),
           py_print (Erro_ler_csv (nao_encontrado arquivo_padrao)) (py_print Lendo_dados w))" .
    then show ?thesis
      using main_falha_sem_imagem [of read_csv w "nao_encontrado arquivo_padrao" plot_falha argv]
      by simp
  qed
  have c1: "files w arquivo = Some c \<and> read_csv c = Inr df \<and> falta_coluna df \<longrightarrow>
      ler_dados_csv read_csv arquivo w
        = (Inl colunas_erradas, py_print (Erro_ler_csv colunas_erradas) w)"
    using r1 by (rule impI)
  have c2: "files w arquivo_padrao = Some c \<and> read_csv c = Inr df \<and> falta_coluna df \<longrightarrow>
      fst (main_visualizacao read_csv plot_falha argv w) = Inr 1
      \<and> imagens (snd (main_visualizacao read_csv plot_falha argv w)) = imagens w"
    using r2 by (rule impI)
  have c3: "files w arquivo = None \<longrightarrow>
      ler_dados_csv read_csv arquivo w
        = (Inl (nao_encontrado arquivo), py_print (Erro_ler_csv (nao_encontrado arquivo)) w)"
    using r3 by (rule impI)
  have c4: "files w arquivo_padrao = None \<longrightarrow>
      fst (main_visualizacao read_csv plot_falha argv w) = Inr 1
      \<and> imagens (snd (main_visualizacao read_csv plot_falha argv w)) = imagens w"
    using r4 by (rule impI)
  from c1 c2 c3 c4 r5 show ?thesis by (intro conjI)
qed

theorem reader_rejects_missing_columns_and_absent_file_witness:
  "files mundo_sem_taxa ''taxa-cdi.csv'' = Some (''data,hora'' @ [CHR 0x0D, CHR 0x0A])
   \<and> read_csv_exemplo (''data,hora'' @ [CHR 0x0D, CHR 0x0A]) = Inr df_sem_taxa
   \<and> colunas df_sem_taxa = [''data'', ''hora'']
   \<and> fst (ler_dados_csv read_csv_exemplo ''taxa-cdi.csv'' mundo_sem_taxa) = Inl colunas_erradas
   \<and> fst (main_visualizacao read_csv_exemplo None [''visualizacao.py'', ''grafico-cdi'']
            mundo_sem_taxa) = Inr 1
   \<and> imagens (snd (main_visualizacao read_csv_exemplo None [''visualizacao.py'', ''grafico-cdi'']
            mundo_sem_taxa)) = []
   \<and> files mundo_vazio ''taxa-cdi.csv'' = None
   \<and> fst (ler_dados_csv read_csv_exemplo ''taxa-cdi.csv'' mundo_vazio)
       = Inl (nao_encontrado ''taxa-cdi.csv'')
   \<and> imagens (snd (main_visualizacao read_csv_exemplo None [''visualizacao.py'', ''grafico-cdi'']
            mundo_vazio)) = []"
proof -
  have h1: "files mundo_sem_taxa ''taxa-cdi.csv'' = Some (''data,hora'' @ [CHR 0x0D, CHR 0x0A])"
    by (simp add: mundo_sem_taxa_def)
  have h2: "read_csv_exemplo (''data,hora'' @ [CHR 0x0D, CHR 0x0A]) = Inr df_sem_taxa"
    by (simp add: read_csv_exemplo_def)
  have h3: "falta_coluna df_sem_taxa"
    by (simp add: falta_coluna_def df_sem_taxa_def)
  have h4: "files mundo_vazio ''taxa-cdi.csv'' = None"
    by (simp add: mundo_vazio_def)
  have i1: "imagens mundo_sem_taxa = []" and i2: "imagens mundo_vazio = []"
    by (simp_all add: imagens_def mundo_sem_taxa_def mundo_vazio_def)
  note T1 = reader_rejects_missing_columns_and_absent_file [of mundo_sem_taxa "''taxa-cdi.csv''"
        "''data,hora'' @ [CHR 0x0D, CHR 0x0A]" read_csv_exemplo df_sem_taxa None
        "[''visualizacao.py'', ''grafico-cdi'']"]
  note T2 = reader_rejects_missing_columns_and_absent_file [of mundo_vazio "''taxa-cdi.csv''"
        "[]" read_csv_exemplo df_sem_taxa None
        "[''visualizacao.py'', ''grafico-cdi'']"]
  note a1 = T1 [THEN conjunct1]
    and a2 = T1 [THEN conjunct2, THEN conjunct1]
    and a3 = T2 [THEN conjunct2, THEN conjunct2, THEN conjunct1]
    and a4 = T2 [THEN conjunct2, THEN conjunct2, THEN conjunct2, THEN conjunct1]
  have h5: "colunas df_sem_taxa = [''data'', ''hora'']" by (simp add: df_sem_taxa_def)
  show ?thesis
    using h1 h2 h3 h4 h5 a1 a2 a3 a4
    by (simp add: arquivo_padrao_def i1 i2)
qed

text \<open>
  C9. The header is written exactly when the path did not exist at the check; the
  content of an existing file plays no part. A call that goes through on an existing
  file with content \<open>c\<close> leaves \<open>c\<close> followed by the data row, so on an existing
  zero-byte file it leaves the data row alone, with no header, in \<^verbatim>\<open>analise.py\<close> and
  in \<^verbatim>\<open>extracao.py\<close>.
\<close>

theorem existing_file_gets_no_header:
  "(files w arquivo = Some c \<longrightarrow>
      files (snd (salvar_csv str_float Io_ok d h t arquivo w)) arquivo
        = Some (c @ data_row str_float d h t))
   \<and> (files w arquivo = Some [] \<longrightarrow>
      fst (salvar_csv str_float Io_ok d h t arquivo w) = Inr ()
      \<and> files (snd (salvar_csv str_float Io_ok d h t arquivo w)) arquivo
        = Some (data_row str_float d h t))
   \<and> (files w arquivo_padrao = Some [] \<longrightarrow>
      fst (salvar_csv_extracao str_float Io_ok d h t w) = Inr ()
      \<and> files (snd (salvar_csv_extracao str_float Io_ok d h t w)) arquivo_padrao
        = Some (data_row str_float d h t))"
  by (simp add: salvar_csv_Io_ok salvar_csv_extracao_Io_ok pendente_de_def conteudo_def)

theorem existing_file_gets_no_header_witness:
  "files mundo_arquivo_vazio ''taxa-cdi.csv'' = Some []
   \<and> files (snd (salvar_csv (\<lambda>r. ''13.25'') Io_ok ''2024-01-01'' ''10:00:00'' (53 / 4)
                  ''taxa-cdi.csv'' mundo_arquivo_vazio)) ''taxa-cdi.csv''
       = Some (''2024-01-01,10:00:00,13.25'' @ [CHR 0x0D, CHR 0x0A])
   \<and> files (snd (salvar_csv_extracao (\<lambda>r. ''13.25'') Io_ok ''2024-01-01'' ''10:00:00'' (53 / 4)
                  mundo_arquivo_vazio)) ''taxa-cdi.csv''
       = Some (''2024-01-01,10:00:00,13.25'' @ [CHR 0x0D, CHR 0x0A])"
proof -
  have h: "files mundo_arquivo_vazio ''taxa-cdi.csv'' = Some []"
    by (simp add: mundo_arquivo_vazio_def)
  have h': "files mundo_arquivo_vazio arquivo_padrao = Some []"
    by (simp add: mundo_arquivo_vazio_def arquivo_padrao_def)
  show ?thesis
    using h h' existing_file_gets_no_header [of mundo_arquivo_vazio "''taxa-cdi.csv''" "[]"
        "\<lambda>r. ''13.25''" "''2024-01-01''" "''10:00:00''" "53 / 4"]
    by (simp add: data_row_exemplo arquivo_padrao_def)
qed

text \<open>
  C10. In \<^verbatim>\<open>extracao.py\<close> a network-layer failure is printed
  (\<^verbatim>\<open>Erro ao fazer requisicao: e\<close>) and raised again by \<^verbatim>\<open>extrair_taxa_cdi\<close>;
  \<^verbatim>\<open>main\<close> then returns 1 and leaves every file as it was. An observation this sampler
  returns is always the one parsed from the response, never a synthesized one.
\<close>

theorem single_shot_never_synthesizes:
  "(falha_de_rede env \<longrightarrow>
      (\<exists>e. requisicao float_str env = Inl e
          \<and> extrair_taxa_cdi_extracao float_str env w
              = (Inl e, py_print (Erro_fazer_requisicao e) (emit Http_get w))
          \<and> fst (main_extracao float_str str_float env w) = Inr 1
          \<and> files (snd (main_extracao float_str str_float env w)) = files w))
   \<and> (\<forall>obs w'. extrair_taxa_cdi_extracao float_str env w = (Inr obs, w')
          \<longrightarrow> requisicao float_str env = Inr obs)"
proof (intro conjI impI allI)
  assume "falha_de_rede env"
  from falha_de_rede_requisicao [OF this] obtain e
    where e: "requisicao float_str env = Inl e" "isinstance e RequestException_cls" by blast
  note x = extrair_extracao_RequestException [OF e]
  from main_extracao_falha [OF x]
  have "main_extracao float_str str_float env w
          = (Inr 1, py_print (Erro_execucao e) (py_print (Erro_fazer_requisicao e)
               (emit Http_get (py_print Iniciando_extracao w))))" .
  with e x show "\<exists>e. requisicao float_str env = Inl e
          \<and> extrair_taxa_cdi_extracao float_str env w
              = (Inl e, py_print (Erro_fazer_requisicao e) (emit Http_get w))
          \<and> fst (main_extracao float_str str_float env w) = Inr 1
          \<and> files (snd (main_extracao float_str str_float env w)) = files w"
    by simp
next
  fix obs w'
  assume "extrair_taxa_cdi_extracao float_str env w = (Inr obs, w')"
  then show "requisicao float_str env = Inr obs" by (rule extrair_extracao_Inr)
qed

theorem single_shot_never_synthesizes_witness:
  "falha_de_rede env_timeout
   \<and> extrair_taxa_cdi_extracao float_exemplo env_timeout mundo_vazio
       = (Inl (Exn Timeout ''Read timed out''),
          \<lparr>files = Map.empty,
            trace = [Http_get, Print (Erro_fazer_requisicao (Exn Timeout ''Read timed out''))]\<rparr>)
   \<and> fst (main_extracao float_exemplo (\<lambda>r. ''13.25'') env_timeout mundo_vazio) = Inr 1
   \<and> files (snd (main_extracao float_exemplo (\<lambda>r. ''13.25'') env_timeout mundo_vazio)) = Map.empty"
proof -
  have h: "falha_de_rede env_timeout"
    by (simp add: falha_de_rede_def env_timeout_def)
  have r: "requisicao float_exemplo env_timeout = Inl (Exn Timeout ''Read timed out'')"
    by (simp add: requisicao_def env_timeout_def)
  show ?thesis
    using h r single_shot_never_synthesizes [of env_timeout float_exemplo mundo_vazio "\<lambda>r. ''13.25''"]
    by (auto simp: mundo_vazio_def py_print_def emit_def)
qed

end
